theory Spec2Isabelle
  imports Complex_Main "HOL-Library.Product_Lexorder"
begin

section \<open>Python values shared by the modules\<close>

text \<open>
  Paths and file contents are strings. Python floats are modelled as reals (finite
  values, no rounding); the one place where the source meets infinities is written out
  in \<open>statistical_mask\<close>. Exceptions are values of \<open>error\<close>; every \<open>try/except\<close> of the
  source is a case split on a sum.
\<close>

type_synonym path = string
type_synonym bytes = string

datatype error =
    KeyError string
  | IndexError
  | ZeroDivisionError
  | ValueError
  | AttributeError
  | FileNotFoundError path
  | FileExistsError path
  | LibraryError string
  | RaisedException string

section \<open>processing/model\_processor.py: point clouds\<close>

type_synonym point = "real \<times> real \<times> real"
type_synonym color = "nat \<times> nat \<times> nat"
type_synonym voxel = "int \<times> int \<times> int"

text \<open>\<open>self.point_cloud\<close> is a dict with the two keys \<open>points\<close> (an N x 3 array) and
  \<open>colors\<close> (an N x 3 array or None).\<close>

record cloud =
  points :: "point list"
  colors :: "color list option"

text \<open>A cloud as \<open>load_point_cloud\<close> builds it: both arrays come from the same vertex
  element, so they have the same number of rows.\<close>

definition wf_cloud :: "cloud \<Rightarrow> bool" where
  "wf_cloud pc = (case colors pc of None \<Rightarrow> True | Some cs \<Rightarrow> length cs = length (points pc))"

text \<open>\<open>np.floor(points / voxel_size).astype(int)\<close>, row by row.\<close>

definition voxel_index :: "real \<Rightarrow> point \<Rightarrow> voxel" where
  "voxel_index voxel_size p =
     (case p of (x, y, z) \<Rightarrow> (\<lfloor>x / voxel_size\<rfloor>, \<lfloor>y / voxel_size\<rfloor>, \<lfloor>z / voxel_size\<rfloor>))"

text \<open>\<open>np.unique(a, axis=0, return_index=True)\<close>: the distinct rows in ascending
  lexicographic order, and for each of them the index of its first occurrence in \<open>a\<close>.\<close>

fun first_index :: "'a list \<Rightarrow> 'a \<Rightarrow> nat" where
  "first_index [] k = 0"
| "first_index (x # xs) k = (if x = k then 0 else Suc (first_index xs k))"

definition np_unique :: "voxel list \<Rightarrow> voxel list \<times> nat list" where
  "np_unique a = (let u = sort (remdups a) in (u, map (first_index a) u))"

text \<open>Indexing an array with an integer array (\<open>a[idx]\<close>) and with a boolean mask
  (\<open>a[mask]\<close>); both raise IndexError when the index does not fit the array.\<close>

definition np_take :: "'a list \<Rightarrow> nat list \<Rightarrow> error + 'a list" where
  "np_take a idx =
     (if list_all (\<lambda>i. i < length a) idx then Inr (map (\<lambda>i. a ! i) idx) else Inl IndexError)"

definition np_mask :: "'a list \<Rightarrow> bool list \<Rightarrow> error + 'a list" where
  "np_mask a keep =
     (if length keep = length a then Inr (map fst (filter snd (zip a keep)))
      else Inl IndexError)"

text \<open>
  The body of \<open>downsample_point_cloud\<close> for a loaded cloud. The source assigns
  \<open>self.point_cloud['points']\<close> before it indexes the colours and before it computes the
  percentage for the log line (\<open>new_size / original_size\<close>, a ZeroDivisionError on an
  empty cloud); an exception after an assignment leaves that assignment in place and
  the method returns False.
\<close>

definition downsample_cloud :: "cloud \<Rightarrow> real \<Rightarrow> bool \<times> cloud" where
  "downsample_cloud pc voxel_size =
     (let pts = points pc;
          original_size = length pts;
          voxel_indices = map (voxel_index voxel_size) pts;
          unique_indices = snd (np_unique voxel_indices)
      in case np_take pts unique_indices of
           Inl e \<Rightarrow> (False, pc)
         | Inr pts' \<Rightarrow>
             (let pc1 = pc\<lparr>points := pts'\<rparr>
              in case (case colors pc of
                         None \<Rightarrow> Inr pc1
                       | Some cs \<Rightarrow> map_sum id (\<lambda>cs'. pc1\<lparr>colors := Some cs'\<rparr>)
                                     (np_take cs unique_indices)) of
                   Inl e \<Rightarrow> (False, pc1)
                 | Inr pc2 \<Rightarrow>
                     if original_size = 0 then (False, pc2) else (True, pc2)))"


subsection \<open>Outlier removal\<close>

definition dist3 :: "point \<Rightarrow> point \<Rightarrow> real" where
  "dist3 p q =
     (case p of (x1, y1, z1) \<Rightarrow> case q of (x2, y2, z2) \<Rightarrow>
        sqrt ((x1 - x2)\<^sup>2 + (y1 - y2)\<^sup>2 + (z1 - z2)\<^sup>2))"

text \<open>\<open>cKDTree(points).query(p, k)\<close> when the tree holds at least \<open>k\<close> points: the \<open>k\<close>
  smallest distances from \<open>p\<close>, ascending. The first one is the distance of \<open>p\<close> to
  itself, which \<open>distances[:, 1:]\<close> drops.\<close>

definition tree_query :: "point list \<Rightarrow> nat \<Rightarrow> point \<Rightarrow> real list" where
  "tree_query pts k p = take k (sort (map (dist3 p) pts))"

definition np_mean :: "real list \<Rightarrow> real" where
  "np_mean xs = sum_list xs / real (length xs)"

definition np_std :: "real list \<Rightarrow> real" where
  "np_std xs = sqrt (np_mean (map (\<lambda>x. (x - np_mean xs)\<^sup>2) xs))"

definition avg_distances :: "point list \<Rightarrow> nat \<Rightarrow> real list" where
  "avg_distances pts nb_neighbors =
     map (\<lambda>p. np_mean (drop 1 (tree_query pts (nb_neighbors + 1) p))) pts"

text \<open>
  The mask of the statistical strategy.
  \<^item> With \<open>nb_neighbors = 0\<close> the query is made with \<open>k = 1\<close>, for which scipy returns a
    one-dimensional array, and \<open>distances[:, 1:]\<close> raises IndexError.
  \<^item> With no more than \<open>nb_neighbors\<close> points the query pads every row with \<open>inf\<close>:
    every average is \<open>inf\<close>, their standard deviation and the threshold are \<open>nan\<close>, and
    \<open>avg_distances < threshold\<close> is False in every row.
  \<^item> Otherwise all distances are finite and the threshold is
    \<open>mean_dist + std_ratio * std_dist\<close>.
\<close>

definition statistical_mask :: "point list \<Rightarrow> nat \<Rightarrow> real \<Rightarrow> error + bool list" where
  "statistical_mask pts nb_neighbors std_ratio =
     (if nb_neighbors = 0 then Inl IndexError
      else if length pts \<le> nb_neighbors then Inr (replicate (length pts) False)
      else
        (let avg = avg_distances pts nb_neighbors;
             mean_dist = np_mean avg;
             std_dist = np_std avg;
             threshold = mean_dist + std_ratio * std_dist
         in Inr (map (\<lambda>d. d < threshold) avg)))"

text \<open>\<open>len(tree.query_ball_point(p, radius))\<close> counts the points within \<open>radius\<close> of
  \<open>p\<close>, \<open>p\<close> itself included.\<close>

definition radius_mask :: "point list \<Rightarrow> nat \<Rightarrow> real \<Rightarrow> bool list" where
  "radius_mask pts nb_points radius =
     map (\<lambda>p. nb_points \<le> length (filter (\<lambda>q. dist3 p q \<le> radius) pts)) pts"

text \<open>The keyword arguments of \<open>remove_outliers\<close>; an absent one takes the default of
  the \<open>kwargs.get\<close> that reads it.\<close>

record outlier_kwargs =
  nb_neighbors :: "nat option"
  std_ratio :: "real option"
  nb_points :: "nat option"
  radius :: "real option"

definition no_kwargs :: outlier_kwargs where
  "no_kwargs = \<lparr>nb_neighbors = None, std_ratio = None, nb_points = None, radius = None\<rparr>"

definition outlier_mask :: "point list \<Rightarrow> string \<Rightarrow> outlier_kwargs \<Rightarrow> error + bool list" where
  "outlier_mask pts method kw =
     (if method = ''statistical'' then
        statistical_mask pts (case nb_neighbors kw of None \<Rightarrow> 20 | Some n \<Rightarrow> n)
          (case std_ratio kw of None \<Rightarrow> 2 | Some r \<Rightarrow> r)
      else if method = ''radius'' then
        Inr (radius_mask pts (case nb_points kw of None \<Rightarrow> 16 | Some n \<Rightarrow> n)
               (case radius kw of None \<Rightarrow> 5 / 100 | Some r \<Rightarrow> r))
      else Inl (RaisedException ''Unknown outlier removal method''))"

text \<open>
  The body of \<open>remove_outliers\<close> for a loaded cloud. An unknown method returns False
  before anything is assigned. The points are assigned before the colours are indexed,
  and both before the log line divides by \<open>original_size\<close>.
\<close>

definition remove_outliers_cloud :: "cloud \<Rightarrow> string \<Rightarrow> outlier_kwargs \<Rightarrow> bool \<times> cloud" where
  "remove_outliers_cloud pc method kw =
     (let pts = points pc;
          original_size = length pts
      in case outlier_mask pts method kw of
           Inl e \<Rightarrow> (False, pc)
         | Inr keep \<Rightarrow>
             (case np_mask pts keep of
                Inl e \<Rightarrow> (False, pc)
              | Inr pts' \<Rightarrow>
                  (let pc1 = pc\<lparr>points := pts'\<rparr>
                   in case (case colors pc of
                              None \<Rightarrow> Inr pc1
                            | Some cs \<Rightarrow> map_sum id (\<lambda>cs'. pc1\<lparr>colors := Some cs'\<rparr>)
                                          (np_mask cs keep)) of
                        Inl e \<Rightarrow> (False, pc1)
                      | Inr pc2 \<Rightarrow>
                          if original_size = 0 then (False, pc2) else (True, pc2))))"

subsection \<open>The processor object\<close>

record trimesh =
  vertices :: "point list"
  faces :: "nat list list"

record marker =
  center :: point
  marker_radius :: real
  face_colors :: "nat list"

record processor =
  model_path :: path
  point_cloud :: "cloud option"
  mesh :: "trimesh option"
  markers :: "marker list"

definition ModelProcessor :: "path \<Rightarrow> processor" where
  "ModelProcessor p = \<lparr>model_path = p, point_cloud = None, mesh = None, markers = []\<rparr>"

definition downsample_point_cloud :: "processor \<Rightarrow> real \<Rightarrow> bool \<times> processor" where
  "downsample_point_cloud self voxel_size =
     (case point_cloud self of
        None \<Rightarrow> (False, self)
      | Some pc \<Rightarrow>
          (case downsample_cloud pc voxel_size of
             (ok, pc') \<Rightarrow> (ok, self\<lparr>point_cloud := Some pc'\<rparr>)))"

definition remove_outliers :: "processor \<Rightarrow> string \<Rightarrow> outlier_kwargs \<Rightarrow> bool \<times> processor" where
  "remove_outliers self method kw =
     (case point_cloud self of
        None \<Rightarrow> (False, self)
      | Some pc \<Rightarrow>
          (case remove_outliers_cloud pc method kw of
             (ok, pc') \<Rightarrow> (ok, self\<lparr>point_cloud := Some pc'\<rparr>)))"

text \<open>The rows that \<open>downsample_point_cloud\<close> keeps: \<open>unique_indices\<close>.\<close>

definition kept :: "cloud \<Rightarrow> real \<Rightarrow> nat list" where
  "kept pc v = snd (np_unique (map (voxel_index v) (points pc)))"

section \<open>Files and the external engine\<close>

text \<open>
  The file system maps a path to a directory or to the bytes of a file. The external
  COLMAP executable is a parameter of the model: given the command line and the file
  system it returns whether \<open>run_command\<close> saw exit status 0 (an exception while
  launching counts as failure, as in the source) and the file system it leaves.
\<close>

datatype node = Dir | File bytes

type_synonym filesystem = "path \<Rightarrow> node option"

type_synonym engine = "string list \<Rightarrow> filesystem \<Rightarrow> bool \<times> filesystem"

definition path_join :: "path \<Rightarrow> string \<Rightarrow> path" where
  "path_join a b = a @ ''/'' @ b"

definition path_exists :: "filesystem \<Rightarrow> path \<Rightarrow> bool" where
  "path_exists fs p = (fs p \<noteq> None)"

text \<open>\<open>Path.mkdir(parents=True, exist_ok=True)\<close>: fails only where a file is in the way.\<close>

definition mkdir :: "filesystem \<Rightarrow> path \<Rightarrow> error + filesystem" where
  "mkdir fs p = (case fs p of Some (File b) \<Rightarrow> Inl (FileExistsError p) | _ \<Rightarrow> Inr (fs(p \<mapsto> Dir)))"

definition read_file :: "filesystem \<Rightarrow> path \<Rightarrow> error + bytes" where
  "read_file fs p = (case fs p of Some (File b) \<Rightarrow> Inr b | _ \<Rightarrow> Inl (FileNotFoundError p))"

text \<open>\<open>open(folder / name, 'wb')\<close> and write: the folder has to be there.\<close>

definition write_file :: "filesystem \<Rightarrow> path \<Rightarrow> string \<Rightarrow> bytes \<Rightarrow> error + filesystem" where
  "write_file fs folder name b =
     (if fs folder = Some Dir \<and> fs (path_join folder name) \<noteq> Some Dir
      then Inr (fs(path_join folder name \<mapsto> File b))
      else Inl (FileNotFoundError (path_join folder name)))"

section \<open>colmap/colmap\_wrapper.py\<close>

text \<open>The configuration dict: four groups of options, each an ordered list of keys with
  the \<open>str\<close> of their values.\<close>

record colmap_config =
  feature_extractor :: "(string \<times> string) list"
  feature_matcher :: "(string \<times> string) list"
  mapper :: "(string \<times> string) list"
  dense :: "(string \<times> string) list"

record colmap_wrapper =
  workspace :: path
  colmap_exe :: string
  images_path :: path
  database_path :: path
  sparse_path :: path
  dense_path :: path

definition COLMAPWrapper :: "filesystem \<Rightarrow> path \<Rightarrow> string \<Rightarrow> error + colmap_wrapper \<times> filesystem" where
  "COLMAPWrapper fs workspace_path exe =
     (let self = \<lparr>workspace = workspace_path, colmap_exe = exe,
                   images_path = path_join workspace_path ''images'',
                   database_path = path_join workspace_path ''database.db'',
                   sparse_path = path_join workspace_path ''sparse'',
                   dense_path = path_join workspace_path ''dense''\<rparr>
      in case mkdir fs (images_path self) of
           Inl e \<Rightarrow> Inl e
         | Inr fs1 \<Rightarrow>
             (case mkdir fs1 (sparse_path self) of
                Inl e \<Rightarrow> Inl e
              | Inr fs2 \<Rightarrow>
                  (case mkdir fs2 (dense_path self) of
                     Inl e \<Rightarrow> Inl e
                   | Inr fs3 \<Rightarrow> Inr (self, fs3))))"

definition run_command :: "engine \<Rightarrow> string list \<Rightarrow> filesystem \<Rightarrow> bool \<times> filesystem" where
  "run_command colmap cmd fs = colmap cmd fs"

text \<open>\<open>for key, value in group.items(): cmd.extend([f"--{key}", str(value)])\<close>\<close>

definition option_args :: "string \<Rightarrow> (string \<times> string) list \<Rightarrow> string list" where
  "option_args pre opts = concat (map (\<lambda>(key, v). [''--'' @ pre @ key, v]) opts)"

definition config_group ::
  "colmap_config option \<Rightarrow> (colmap_config \<Rightarrow> (string \<times> string) list) \<Rightarrow> (string \<times> string) list" where
  "config_group config sel = (case config of None \<Rightarrow> [] | Some c \<Rightarrow> sel c)"

definition feature_extraction ::
  "colmap_wrapper \<Rightarrow> engine \<Rightarrow> colmap_config option \<Rightarrow> filesystem \<Rightarrow> bool \<times> filesystem" where
  "feature_extraction self colmap config fs =
     run_command colmap
       ([colmap_exe self, ''feature_extractor'',
         ''--database_path'', database_path self,
         ''--image_path'', images_path self]
        @ option_args [] (config_group config feature_extractor)) fs"

definition feature_matching ::
  "colmap_wrapper \<Rightarrow> engine \<Rightarrow> colmap_config option \<Rightarrow> filesystem \<Rightarrow> bool \<times> filesystem" where
  "feature_matching self colmap config fs =
     run_command colmap
       ([colmap_exe self, ''exhaustive_matcher'',
         ''--database_path'', database_path self]
        @ option_args [] (config_group config feature_matcher)) fs"

definition sparse_reconstruction ::
  "colmap_wrapper \<Rightarrow> engine \<Rightarrow> colmap_config option \<Rightarrow> filesystem \<Rightarrow> bool \<times> filesystem" where
  "sparse_reconstruction self colmap config fs =
     run_command colmap
       ([colmap_exe self, ''mapper'',
         ''--database_path'', database_path self,
         ''--image_path'', images_path self,
         ''--output_path'', sparse_path self]
        @ option_args [] (config_group config mapper)) fs"

definition image_undistortion :: "colmap_wrapper \<Rightarrow> engine \<Rightarrow> filesystem \<Rightarrow> bool \<times> filesystem" where
  "image_undistortion self colmap fs =
     (let model_dir = path_join (sparse_path self) ''0''
      in if \<not> path_exists fs model_dir then (False, fs)
         else run_command colmap
                [colmap_exe self, ''image_undistorter'',
                 ''--image_path'', images_path self,
                 ''--input_path'', model_dir,
                 ''--output_path'', dense_path self,
                 ''--output_type'', ''COLMAP''] fs)"

text \<open>\<open>key.startswith('filter_')\<close> and \<open>key.replace('filter_', '')\<close>.\<close>

definition startswith :: "string \<Rightarrow> string \<Rightarrow> bool" where
  "startswith s pre = (take (length pre) s = pre)"

function remove_all :: "string \<Rightarrow> string \<Rightarrow> string" where
  "remove_all pat s =
     (if s = [] \<or> pat = [] then s
      else if startswith s pat then remove_all pat (drop (length pat) s)
      else hd s # remove_all pat (tl s))"
  by pat_completeness auto
termination
  by (relation "measure (\<lambda>(pat, s). length s)") auto

definition dense_reconstruction ::
  "colmap_wrapper \<Rightarrow> engine \<Rightarrow> colmap_config option \<Rightarrow> filesystem \<Rightarrow> bool \<times> filesystem" where
  "dense_reconstruction self colmap config fs =
     (let opts = config_group config dense;
          cmd_stereo =
            [colmap_exe self, ''patch_match_stereo'', ''--workspace_path'', dense_path self]
            @ option_args ''PatchMatchStereo.''
                (filter (\<lambda>(key, v). \<not> startswith key ''filter_'') opts)
      in case run_command colmap cmd_stereo fs of
           (False, fs1) \<Rightarrow> (False, fs1)
         | (True, fs1) \<Rightarrow>
             run_command colmap
               ([colmap_exe self, ''stereo_fusion'',
                 ''--workspace_path'', dense_path self,
                 ''--output_path'', path_join (dense_path self) ''fused.ply'']
                @ option_args ''StereoFusion.''
                    (map (\<lambda>(key, v). (remove_all ''filter_'' key, v))
                       (filter (\<lambda>(key, v). startswith key ''filter_'') opts))) fs1)"

text \<open>\<open>str.lower\<close> on ASCII.\<close>

definition lower_char :: "char \<Rightarrow> char" where
  "lower_char c =
     (if 65 \<le> (of_char c :: nat) \<and> (of_char c :: nat) \<le> 90
      then char_of ((of_char c :: nat) + 32) else c)"

definition export_model ::
  "colmap_wrapper \<Rightarrow> engine \<Rightarrow> string \<Rightarrow> filesystem \<Rightarrow> path option \<times> filesystem" where
  "export_model self colmap output_format fs =
     (let dense_model = path_join (dense_path self) ''fused.ply''
      in if path_exists fs dense_model then (Some dense_model, fs)
         else
           (let sparse_model = path_join (sparse_path self) ''0''
            in if \<not> path_exists fs sparse_model then (None, fs)
               else
                 (let output_file = path_join (workspace self) (''model.'' @ map lower_char output_format)
                  in case run_command colmap
                            [colmap_exe self, ''model_converter'',
                             ''--input_path'', sparse_model,
                             ''--output_path'', output_file,
                             ''--output_type'', output_format] fs of
                       (True, fs1) \<Rightarrow> (Some output_file, fs1)
                     | (False, fs1) \<Rightarrow> (None, fs1))))"

text \<open>The result dict of \<open>full_reconstruction\<close>; \<open>process_full_pipeline\<close> returns the
  same three keys with \<open>model_info\<close> in place of \<open>output_files\<close>.\<close>

record results =
  success :: bool
  steps_completed :: "string list"
  errors :: "string list"

record colmap_results = results +
  output_files :: "(string \<times> string) list"

text \<open>
  \<open>full_reconstruction\<close>. No call in the \<open>try\<close> block raises in this model (every stage
  goes through \<open>run_command\<close>, which turns exceptions into False), so the \<open>except\<close>
  clause has no branch here.
\<close>

definition full_reconstruction ::
  "colmap_wrapper \<Rightarrow> engine \<Rightarrow> colmap_config option \<Rightarrow> filesystem \<Rightarrow> colmap_results \<times> filesystem" where
  "full_reconstruction self colmap config fs =
     (let r0 = \<lparr>success = False, steps_completed = [], errors = [], output_files = []\<rparr>
      in case feature_extraction self colmap config fs of
           (False, fs1) \<Rightarrow> (r0\<lparr>errors := errors r0 @ [''Feature extraction failed'']\<rparr>, fs1)
         | (True, fs1) \<Rightarrow>
      (let r1 = r0\<lparr>steps_completed := steps_completed r0 @ [''feature_extraction'']\<rparr>
       in case feature_matching self colmap config fs1 of
            (False, fs2) \<Rightarrow> (r1\<lparr>errors := errors r1 @ [''Feature matching failed'']\<rparr>, fs2)
          | (True, fs2) \<Rightarrow>
      (let r2 = r1\<lparr>steps_completed := steps_completed r1 @ [''feature_matching'']\<rparr>
       in case sparse_reconstruction self colmap config fs2 of
            (False, fs3) \<Rightarrow> (r2\<lparr>errors := errors r2 @ [''Sparse reconstruction failed'']\<rparr>, fs3)
          | (True, fs3) \<Rightarrow>
      (let r3 = r2\<lparr>steps_completed := steps_completed r2 @ [''sparse_reconstruction'']\<rparr>
       in case image_undistortion self colmap fs3 of
            (False, fs4) \<Rightarrow> (r3\<lparr>errors := errors r3 @ [''Image undistortion failed'']\<rparr>, fs4)
          | (True, fs4) \<Rightarrow>
      (let r4 = r3\<lparr>steps_completed := steps_completed r3 @ [''image_undistortion'']\<rparr>
       in case dense_reconstruction self colmap config fs4 of
            (d, fs5) \<Rightarrow>
      (let r5 = (if d then r4\<lparr>steps_completed := steps_completed r4 @ [''dense_reconstruction'']\<rparr>
                 else r4\<lparr>errors := errors r4 @ [''Dense reconstruction failed'']\<rparr>)
       in case export_model self colmap ''PLY'' fs5 of
            (Some exported, fs6) \<Rightarrow>
              (r5\<lparr>output_files := [(''model'', exported)], success := True\<rparr>, fs6)
          | (None, fs6) \<Rightarrow> (r5, fs6)))))))"

section \<open>config.py\<close>

definition COLMAP_CONFIG :: colmap_config where
  "COLMAP_CONFIG =
     \<lparr>feature_extractor =
        [(''SiftExtraction.max_image_size'', ''3200''),
         (''SiftExtraction.max_num_features'', ''8192''),
         (''SiftExtraction.first_octave'', ''-1''),
         (''SiftExtraction.num_threads'', ''-1''),
         (''SiftExtraction.use_gpu'', ''1''),
         (''SiftExtraction.gpu_index'', ''0'')],
      feature_matcher =
        [(''SiftMatching.max_ratio'', ''0.8''),
         (''SiftMatching.max_distance'', ''0.7''),
         (''SiftMatching.cross_check'', ''1''),
         (''SiftMatching.max_error'', ''4.0''),
         (''SiftMatching.max_num_matches'', ''32768''),
         (''SiftMatching.confidence'', ''0.999''),
         (''SiftMatching.min_inlier_ratio'', ''0.25''),
         (''SiftMatching.use_gpu'', ''1''),
         (''SiftMatching.gpu_index'', ''0'')],
      mapper =
        [(''Mapper.ba_refine_focal_length'', ''1''),
         (''Mapper.ba_refine_principal_point'', ''0''),
         (''Mapper.ba_refine_extra_params'', ''1''),
         (''Mapper.min_num_matches'', ''15''),
         (''Mapper.init_min_num_inliers'', ''100''),
         (''Mapper.abs_pose_min_num_inliers'', ''30''),
         (''Mapper.abs_pose_min_inlier_ratio'', ''0.25''),
         (''Mapper.ba_local_num_images'', ''6''),
         (''Mapper.ba_global_max_num_iterations'', ''50''),
         (''Mapper.ba_local_max_num_iterations'', ''25''),
         (''Mapper.ba_global_max_refinements'', ''5''),
         (''Mapper.ba_local_max_refinements'', ''3''),
         (''Mapper.snapshot_images_freq'', ''0'')],
      dense =
        [(''max_image_size'', ''2000''),
         (''window_radius'', ''5''),
         (''window_step'', ''1''),
         (''num_samples'', ''15''),
         (''num_iterations'', ''5''),
         (''geom_consistency'', ''1''),
         (''filter_min_ncc'', ''0.1''),
         (''filter_min_triangulation_angle'', ''3.0''),
         (''filter_min_num_consistent'', ''3''),
         (''filter_geom_consistency_max_cost'', ''1.0''),
         (''cuda_index'', ''0''),
         (''num_threads'', ''-1'')]\<rparr>"

section \<open>processing/model\_processor.py: loading, meshing, markers, export\<close>

text \<open>
  The geometry and file-format libraries (plyfile, trimesh, scipy's Delaunay, pathlib's
  glob, base64, json) are parameters of the model. Each entry returns what the call returns or the
  exception it raises.
\<close>

record cloud_info =
  num_points :: nat
  has_colors :: bool
  bounding_box_min :: point
  bounding_box_max :: point

record mesh_info =
  num_vertices :: nat
  num_faces :: nat
  mesh_has_colors :: bool
  is_watertight :: bool
  volume :: "real option"
  surface_area :: real

record model_info =
  info_point_cloud :: "cloud_info option"
  info_mesh :: "mesh_info option"
  info_markers :: "nat option"

text \<open>The dict of \<open>get_reconstruction_stats\<close> and the metadata document of a job.\<close>

record colmap_stats =
  stats_num_images :: nat
  num_cameras :: nat
  num_points_sparse :: nat
  num_points_dense :: nat
  has_dense_model :: bool

record metadata =
  meta_reconstruction_id :: string
  meta_session_id :: string
  meta_project_name :: string
  meta_num_images :: nat
  meta_num_annotations :: nat
  meta_model_info :: "model_info option"
  meta_colmap_stats :: colmap_stats
  meta_created_at :: real

record libs =
  ply_read :: "bytes \<Rightarrow> error + cloud"
  trimesh_load :: "bytes \<Rightarrow> error + trimesh"
  delaunay :: "point list \<Rightarrow> error + trimesh"
  convex_hull :: "point list \<Rightarrow> error + trimesh"
  mesh_cleanup :: "trimesh \<Rightarrow> error + trimesh"
  simplify_quadric_decimation :: "trimesh \<Rightarrow> int \<Rightarrow> error + trimesh"
  filter_laplacian :: "trimesh \<Rightarrow> int \<Rightarrow> error + trimesh"
  mesh_export :: "trimesh \<Rightarrow> marker list \<Rightarrow> string \<Rightarrow> error + bytes"
  mesh_measure :: "trimesh \<Rightarrow> bool \<times> bool \<times> real \<times> real"
  glob_count :: "filesystem \<Rightarrow> path \<Rightarrow> string \<Rightarrow> nat"
  b64decode :: "string \<Rightarrow> error + bytes"
  json_dump :: "metadata \<Rightarrow> bytes"

text \<open>\<open>load_point_cloud\<close> stores the cloud and returns whether it has a point; a file
  that is missing or does not parse makes it return False.\<close>

definition load_point_cloud :: "libs \<Rightarrow> filesystem \<Rightarrow> processor \<Rightarrow> bool \<times> processor" where
  "load_point_cloud lib fs self =
     (case read_file fs (model_path self) of
        Inl e \<Rightarrow> (False, self)
      | Inr b \<Rightarrow>
          (case ply_read lib b of
             Inl e \<Rightarrow> (False, self)
           | Inr pc \<Rightarrow> (0 < length (points pc), self\<lparr>point_cloud := Some pc\<rparr>)))"

definition load_mesh :: "libs \<Rightarrow> filesystem \<Rightarrow> processor \<Rightarrow> bool \<times> processor" where
  "load_mesh lib fs self =
     (case read_file fs (model_path self) of
        Inl e \<Rightarrow> (False, self)
      | Inr b \<Rightarrow>
          (case trimesh_load lib b of
             Inl e \<Rightarrow> (False, self)
           | Inr m \<Rightarrow> (0 < length (vertices m), self\<lparr>mesh := Some m\<rparr>)))"

definition point_cloud_to_mesh :: "libs \<Rightarrow> processor \<Rightarrow> string \<Rightarrow> bool \<times> processor" where
  "point_cloud_to_mesh lib self method =
     (case point_cloud self of
        None \<Rightarrow> (False, self)
      | Some pc \<Rightarrow>
          (case (if method = ''alpha_shape'' then delaunay lib (points pc)
                 else if method = ''convex_hull'' then convex_hull lib (points pc)
                 else Inl (RaisedException ''Unknown mesh creation method'')) of
             Inl e \<Rightarrow> (False, self)
           | Inr m \<Rightarrow>
               (case mesh_cleanup lib m of
                  Inl e \<Rightarrow> (False, self\<lparr>mesh := Some m\<rparr>)
                | Inr m' \<Rightarrow> (True, self\<lparr>mesh := Some m'\<rparr>))))"

text \<open>\<open>int(x)\<close> on a float truncates towards zero.\<close>

definition py_int :: "real \<Rightarrow> int" where
  "py_int x = (if 0 \<le> x then \<lfloor>x\<rfloor> else \<lceil>x\<rceil>)"

definition simplify_mesh :: "libs \<Rightarrow> processor \<Rightarrow> real \<Rightarrow> bool \<times> processor" where
  "simplify_mesh lib self target_reduction =
     (case mesh self of
        None \<Rightarrow> (False, self)
      | Some m \<Rightarrow>
          (let original_faces = length (faces m);
               target_faces = py_int (real original_faces * target_reduction)
           in case simplify_quadric_decimation lib m target_faces of
                Inl e \<Rightarrow> (False, self)
              | Inr m' \<Rightarrow> (True, self\<lparr>mesh := Some m'\<rparr>)))"

definition smooth_mesh :: "libs \<Rightarrow> processor \<Rightarrow> int \<Rightarrow> bool \<times> processor" where
  "smooth_mesh lib self iterations =
     (case mesh self of
        None \<Rightarrow> (False, self)
      | Some m \<Rightarrow>
          (case filter_laplacian lib m iterations of
             Inl e \<Rightarrow> (False, self)
           | Inr m' \<Rightarrow> (True, self\<lparr>mesh := Some m'\<rparr>)))"

text \<open>An annotation as \<open>upload_image\<close> appends it. Positions are three coordinates, as
  the request schema has them.\<close>

record annotation =
  ann_position :: point
  ann_classification :: string
  ann_transcript :: string
  image_index :: nat

definition marker_size :: real where
  "marker_size = 5 / 100"

definition overlay_colors :: "(string \<times> nat list) list" where
  "overlay_colors =
     [(''Algae'', [0, 255, 0]),
      (''Major Crack'', [255, 0, 0]),
      (''Minor Crack'', [255, 165, 0]),
      (''Peeling'', [128, 0, 128]),
      (''Plain'', [0, 0, 255]),
      (''Spalling'', [139, 69, 19]),
      (''Stain'', [255, 255, 0])]"

text \<open>
  \<open>add_crack_markers\<close>: one sphere for each annotation, in order. The function-local
  import of \<open>CRACK_OVERLAY_CONFIG\<close> is taken to bind the table of config.py; with typed
  positions no statement of the loop raises, so the method returns True.
\<close>

definition make_marker :: "annotation \<Rightarrow> marker" where
  "make_marker ann =
     \<lparr>center = ann_position ann, marker_radius = marker_size,
      face_colors = (case map_of overlay_colors (ann_classification ann) of
                       None \<Rightarrow> [128, 128, 128] | Some c \<Rightarrow> c) @ [255]\<rparr>"

definition add_crack_markers :: "processor \<Rightarrow> annotation list \<Rightarrow> bool \<times> processor" where
  "add_crack_markers self anns = (True, self\<lparr>markers := map make_marker anns\<rparr>)"

text \<open>\<open>save_mesh\<close> returns False, without raising, when there is no mesh or the export or
  the write fails.\<close>

definition save_mesh ::
  "libs \<Rightarrow> processor \<Rightarrow> filesystem \<Rightarrow> path \<Rightarrow> string \<Rightarrow> string \<Rightarrow> bool \<times> filesystem" where
  "save_mesh lib self fs folder name file_type =
     (case mesh self of
        None \<Rightarrow> (False, fs)
      | Some m \<Rightarrow>
          (case mesh_export lib m (markers self) file_type of
             Inl e \<Rightarrow> (False, fs)
           | Inr b \<Rightarrow>
               (case write_file fs folder name b of
                  Inl e \<Rightarrow> (False, fs)
                | Inr fs' \<Rightarrow> (True, fs'))))"

definition column_bound :: "(real \<Rightarrow> real \<Rightarrow> real) \<Rightarrow> point list \<Rightarrow> point" where
  "column_bound f pts =
     (fold f (map fst (tl pts)) (fst (hd pts)),
      fold f (map (\<lambda>p. fst (snd p)) (tl pts)) (fst (snd (hd pts))),
      fold f (map (\<lambda>p. snd (snd p)) (tl pts)) (snd (snd (hd pts))))"

text \<open>\<open>get_model_info\<close>; \<open>points.min(axis=0)\<close> raises ValueError on an array without
  rows.\<close>

definition get_model_info :: "libs \<Rightarrow> processor \<Rightarrow> error + model_info" where
  "get_model_info lib self =
     (case (case point_cloud self of
              None \<Rightarrow> Inr None
            | Some pc \<Rightarrow>
                if points pc = [] then Inl ValueError
                else Inr (Some \<lparr>num_points = length (points pc),
                                has_colors = (colors pc \<noteq> None),
                                bounding_box_min = column_bound min (points pc),
                                bounding_box_max = column_bound max (points pc)\<rparr>)) of
        Inl e \<Rightarrow> Inl e
      | Inr ci \<Rightarrow>
          Inr \<lparr>info_point_cloud = ci,
               info_mesh =
                 (case mesh self of
                    None \<Rightarrow> None
                  | Some m \<Rightarrow>
                      (case mesh_measure lib m of
                         (vc, wt, vol, area) \<Rightarrow>
                           Some \<lparr>num_vertices = length (vertices m), num_faces = length (faces m),
                                 mesh_has_colors = vc, is_watertight = wt,
                                 volume = (if wt then Some vol else None),
                                 surface_area = area\<rparr>)),
               info_markers = (if markers self = [] then None else Some (length (markers self)))\<rparr>)"

record mesh_config =
  reconstruction_method :: "string option"
  simplification_factor :: "real option"
  smooth :: bool
  smooth_iterations :: "int option"

record model_config =
  voxel_size :: "real option"
  outlier_removal :: bool
  statistical_outlier :: "outlier_kwargs option"
  mesh_section :: "mesh_config option"

definition MODEL_CONFIG :: model_config where
  "MODEL_CONFIG =
     \<lparr>voxel_size = Some (2 / 100),
      outlier_removal = True,
      statistical_outlier = Some (no_kwargs\<lparr>nb_neighbors := Some 20, std_ratio := Some 2\<rparr>),
      mesh_section = Some \<lparr>reconstruction_method = Some ''poisson'',
                          simplification_factor = Some (95 / 100),
                          smooth = False, smooth_iterations = None\<rparr>\<rparr>"

record process_results = results +
  model_info :: "model_info option"

definition str_error :: "error \<Rightarrow> string" where
  "str_error e =
     (case e of
        KeyError k \<Rightarrow> [CHR 0x27] @ k @ [CHR 0x27]
      | IndexError \<Rightarrow> ''too many indices for array''
      | ZeroDivisionError \<Rightarrow> ''division by zero''
      | ValueError \<Rightarrow> ''zero-size array to reduction operation minimum which has no identity''
      | AttributeError \<Rightarrow> ''object has no attribute''
      | FileNotFoundError p \<Rightarrow> ''No such file or directory: '' @ p
      | FileExistsError p \<Rightarrow> ''File exists: '' @ p
      | LibraryError m \<Rightarrow> m
      | RaisedException m \<Rightarrow> m)"

definition step_done :: "bool \<Rightarrow> string \<Rightarrow> process_results \<Rightarrow> process_results" where
  "step_done ok name r = (if ok then r\<lparr>steps_completed := steps_completed r @ [name]\<rparr> else r)"

text \<open>The part of \<open>process_full_pipeline\<close> that runs on a loaded point cloud.\<close>

definition cloud_steps ::
  "libs \<Rightarrow> model_config option \<Rightarrow> processor \<times> process_results \<Rightarrow> processor \<times> process_results" where
  "cloud_steps lib config st =
     (let (p1, r1) =
            (case st of (p, r) \<Rightarrow>
               (case (case config of None \<Rightarrow> None | Some c \<Rightarrow> voxel_size c) of
                  None \<Rightarrow> (p, r)
                | Some v \<Rightarrow>
                    if v = 0 then (p, r)
                    else (case downsample_point_cloud p v of
                            (ok, p') \<Rightarrow> (p', step_done ok ''downsample'' r))));
          (p2, r2) =
            (case config of
               None \<Rightarrow> (p1, r1)
             | Some c \<Rightarrow>
                 if outlier_removal c then
                   (case remove_outliers p1 ''statistical''
                           (case statistical_outlier c of None \<Rightarrow> no_kwargs | Some kw \<Rightarrow> kw) of
                      (ok, p') \<Rightarrow> (p', step_done ok ''outlier_removal'' r1))
                 else (p1, r1))
      in case (case config of None \<Rightarrow> None | Some c \<Rightarrow> mesh_section c) of
           None \<Rightarrow> (p2, r2)
         | Some mc \<Rightarrow>
             (case point_cloud_to_mesh lib p2
                     (case reconstruction_method mc of None \<Rightarrow> ''alpha_shape'' | Some m \<Rightarrow> m) of
                (ok, p') \<Rightarrow> (p', step_done ok ''mesh_creation'' r2)))"

text \<open>The steps on the mesh, whichever way it was obtained.\<close>

definition mesh_steps ::
  "libs \<Rightarrow> model_config option \<Rightarrow> processor \<times> process_results \<Rightarrow> processor \<times> process_results" where
  "mesh_steps lib config st =
     (let mc = (case config of None \<Rightarrow> None | Some c \<Rightarrow> mesh_section c);
          (p1, r1) =
            (case st of (p, r) \<Rightarrow>
               (case (case mc of None \<Rightarrow> None | Some m \<Rightarrow> simplification_factor m) of
                  None \<Rightarrow> (p, r)
                | Some f \<Rightarrow>
                    if mesh p = None \<or> f = 0 then (p, r)
                    else (case simplify_mesh lib p f of
                            (ok, p') \<Rightarrow> (p', step_done ok ''simplification'' r))))
      in case mc of
           None \<Rightarrow> (p1, r1)
         | Some m \<Rightarrow>
             if mesh p1 \<noteq> None \<and> smooth m then
               (case smooth_mesh lib p1 (case smooth_iterations m of None \<Rightarrow> 5 | Some i \<Rightarrow> i) of
                  (ok, p') \<Rightarrow> (p', step_done ok ''smoothing'' r1))
             else (p1, r1))"

text \<open>
  \<open>process_full_pipeline\<close>. The helper methods catch their own exceptions; the one
  call of the \<open>try\<close> block that can raise is \<open>get_model_info\<close>, whose exception the
  \<open>except\<close> clause appends to \<open>errors\<close>.
\<close>

definition process_full_pipeline ::
  "libs \<Rightarrow> filesystem \<Rightarrow> processor \<Rightarrow> model_config option \<Rightarrow> process_results \<times> processor" where
  "process_full_pipeline lib fs self config =
     (let r0 = \<lparr>success = False, steps_completed = [], errors = [], model_info = None\<rparr>
      in case (case load_point_cloud lib fs self of
                 (True, p) \<Rightarrow> Inr (cloud_steps lib config (p, step_done True ''load_point_cloud'' r0))
               | (False, p) \<Rightarrow>
                   (case load_mesh lib fs p of
                      (True, p') \<Rightarrow> Inr (p', step_done True ''load_mesh'' r0)
                    | (False, p') \<Rightarrow> Inl (p', r0\<lparr>errors := errors r0 @ [''Failed to load model'']\<rparr>))) of
           Inl (p, r) \<Rightarrow> (r, p)
         | Inr st \<Rightarrow>
             (case mesh_steps lib config st of
                (p, r) \<Rightarrow>
                  (case get_model_info lib p of
                     Inl e \<Rightarrow> (r\<lparr>errors := errors r @ [str_error e]\<rparr>, p)
                   | Inr info \<Rightarrow> (r\<lparr>model_info := Some info, success := True\<rparr>, p))))"

text \<open>\<open>get_reconstruction_stats\<close>: counts from the workspace; the two model counts are
  file sizes divided by a record size.\<close>

definition file_len :: "filesystem \<Rightarrow> path \<Rightarrow> nat option" where
  "file_len fs p = (case fs p of None \<Rightarrow> None | Some Dir \<Rightarrow> Some 0 | Some (File b) \<Rightarrow> Some (length b))"

definition get_reconstruction_stats :: "libs \<Rightarrow> colmap_wrapper \<Rightarrow> filesystem \<Rightarrow> colmap_stats" where
  "get_reconstruction_stats lib self fs =
     (let sparse_model = path_join (sparse_path self) ''0''
      in \<lparr>stats_num_images =
            (if path_exists fs (images_path self)
             then glob_count lib fs (images_path self) ''*.jpg'' + glob_count lib fs (images_path self) ''*.png''
             else 0),
          num_cameras =
            (if path_exists fs sparse_model
             then (case file_len fs (path_join sparse_model ''cameras.bin'') of
                     None \<Rightarrow> 0 | Some n \<Rightarrow> n div 80)
             else 0),
          num_points_sparse =
            (if path_exists fs sparse_model
             then (case file_len fs (path_join sparse_model ''points3D.bin'') of
                     None \<Rightarrow> 0 | Some n \<Rightarrow> n div 43)
             else 0),
          num_points_dense = 0,
          has_dense_model = path_exists fs (path_join (dense_path self) ''fused.ply'')\<rparr>)"

section \<open>api/routes.py: sessions\<close>

text \<open>\<open>str\<close> of an integer and the format \<open>{n:04d}\<close>.\<close>

definition digit_char :: "nat \<Rightarrow> char" where
  "digit_char d = char_of (48 + d)"

fun str_nat :: "nat \<Rightarrow> string" where
  "str_nat n = (if n < 10 then [digit_char n] else str_nat (n div 10) @ [digit_char (n mod 10)])"

declare str_nat.simps [simp del]

definition str_int :: "int \<Rightarrow> string" where
  "str_int i = (if i < 0 then ''-'' @ str_nat (nat (- i)) else str_nat (nat i))"

definition format_04d :: "nat \<Rightarrow> string" where
  "format_04d n = replicate (4 - length (str_nat n)) CHR ''0'' @ str_nat n"

text \<open>\<open>str\<close> of a list of strings, as the f-strings of \<open>run_reconstruction\<close> render
  \<open>errors\<close>.\<close>

fun join_with :: "string \<Rightarrow> string list \<Rightarrow> string" where
  "join_with sep [] = []"
| "join_with sep [x] = x"
| "join_with sep (x # y # ys) = x @ sep @ join_with sep (y # ys)"

definition str_list :: "string list \<Rightarrow> string" where
  "str_list xs = ''['' @ join_with '', '' (map (\<lambda>x. [CHR 0x27] @ x @ [CHR 0x27]) xs) @ '']''"

text \<open>Paths are relative to the directory of config.py.\<close>

definition SESSIONS_DIR :: path where
  "SESSIONS_DIR = ''sessions''"

definition OUTPUT_DIR :: path where
  "OUTPUT_DIR = ''output''"

definition max_images_per_session :: nat where
  "max_images_per_session = 200"

definition min_images_for_reconstruction :: nat where
  "min_images_for_reconstruction = 10"

record pose =
  position :: "point option"
  rotation :: "(real \<times> real \<times> real \<times> real) option"

record image_info =
  filename :: string
  img_path :: path
  camera_pose :: "pose option"
  transcript :: string
  classification :: string
  confidence :: real
  timestamp :: real

text \<open>The session dict of \<open>start_session\<close>: these seven keys, and no statement of the
  module adds or removes one.\<close>

record session =
  project_name :: string
  room_type :: string
  folder :: path
  images :: "image_info list"
  annotations :: "annotation list"
  created_at :: real
  status :: string

datatype session_value =
    SStr string
  | SNum real
  | SImages "image_info list"
  | SAnnotations "annotation list"

definition session_items :: "session \<Rightarrow> (string \<times> session_value) list" where
  "session_items s =
     [(''project_name'', SStr (project_name s)),
      (''room_type'', SStr (room_type s)),
      (''folder'', SStr (folder s)),
      (''images'', SImages (images s)),
      (''annotations'', SAnnotations (annotations s)),
      (''created_at'', SNum (created_at s)),
      (''status'', SStr (status s))]"

text \<open>\<open>session[key]\<close>: KeyError for a key the dict does not have.\<close>

definition session_getitem :: "session \<Rightarrow> string \<Rightarrow> error + session_value" where
  "session_getitem s key =
     (case map_of (session_items s) key of None \<Rightarrow> Inl (KeyError key) | Some v \<Rightarrow> Inr v)"

text \<open>The status dict of a job. As long as the job runs, its dict is the entry of
  \<open>reconstruction_status\<close> under its id.\<close>

record job =
  session_id :: string
  job_status :: string
  progress :: nat
  message :: string
  started_at :: real
  current_step :: "string option"
  job_errors :: "string list"
  job_output_files :: "(string \<times> path) list option"
  completed_at :: "real option"

text \<open>
  The module state. \<open>active_sessions\<close> maps a session id to a reference to the session
  dict, and \<open>session_objects\<close> is the store of these dicts: a request handler or a job
  thread that holds a reference reads and mutates the dict itself, whatever the registry
  says later. \<open>colmap_config\<close> holds the nested dicts of the global \<open>COLMAP_CONFIG\<close>;
  \<open>COLMAP_CONFIG.copy()\<close> is a shallow copy, so every job's \<open>config\<close> shares them.
\<close>

record world =
  active_sessions :: "string \<Rightarrow> nat option"
  session_objects :: "nat \<Rightarrow> session option"
  next_object :: nat
  reconstruction_status :: "string \<Rightarrow> job option"
  files :: filesystem
  colmap_config :: colmap_config

datatype response =
    SessionStarted string
  | ImageUploaded nat nat string
  | ReconstructionStarted string int
  | Failure nat string

definition InvalidSession :: response where
  "InvalidSession = Failure 400 ''Invalid session ID''"

definition ImageLimitExceeded :: response where
  "ImageLimitExceeded = Failure 400 (''Maximum '' @ str_nat max_images_per_session @ '' images per session'')"

definition InsufficientImages :: response where
  "InsufficientImages = Failure 400 (''Need at least '' @ str_nat min_images_for_reconstruction @ '' images'')"

record session_request =
  req_project_name :: "string option"
  req_room_type :: "string option"

text \<open>\<open>start_session\<close>; the three reals are the three readings of \<open>time.time()\<close>, in the
  order of the source.\<close>

definition start_session :: "world \<Rightarrow> session_request \<Rightarrow> real \<Rightarrow> real \<Rightarrow> real \<Rightarrow> response \<times> world" where
  "start_session w data t_name t_id t_created =
     (let name = (case req_project_name data of
                    None \<Rightarrow> ''project_'' @ str_int (py_int t_name) | Some n \<Rightarrow> n);
          sid = ''session_'' @ str_int (py_int t_id);
          session_folder = path_join SESSIONS_DIR sid
      in case mkdir (files w) session_folder of
           Inl e \<Rightarrow> (Failure 500 (str_error e), w)
         | Inr fs \<Rightarrow>
             (let r = next_object w;
                  s = \<lparr>project_name = name,
                       room_type = (case req_room_type data of None \<Rightarrow> ''unknown'' | Some t \<Rightarrow> t),
                       folder = session_folder, images = [], annotations = [],
                       created_at = t_created, status = ''active''\<rparr>
              in (SessionStarted sid,
                  w\<lparr>files := fs,
                    session_objects := (session_objects w)(r \<mapsto> s),
                    next_object := r + 1,
                    active_sessions := (active_sessions w)(sid \<mapsto> r)\<rparr>)))"

section \<open>api/routes.py: image upload\<close>

record upload_request =
  up_session_id :: "string option"
  image :: "string option"
  up_camera_pose :: "pose option"
  up_transcript :: "string option"
  up_classification :: "string option"
  up_confidence :: "real option"

text \<open>
  \<open>upload_image\<close> in two halves. The first (up to the line that builds \<open>img_path\<close>)
  validates the request and reads the image count, from which it derives the file name;
  the second writes the file and appends the records. What the handler holds between
  the two is a \<open>pending_upload\<close>. No lock is taken anywhere in the module.
\<close>

record pending_upload =
  pu_session :: nat
  pu_bytes :: bytes
  img_num :: nat
  img_filename :: string
  pu_folder :: path

definition upload_prepare :: "libs \<Rightarrow> world \<Rightarrow> upload_request \<Rightarrow> response + pending_upload" where
  "upload_prepare lib w data =
     (case (case up_session_id data of
              None \<Rightarrow> None
            | Some sid \<Rightarrow> if sid = [] then None else active_sessions w sid) of
        None \<Rightarrow> Inl InvalidSession
      | Some r \<Rightarrow>
          (case session_objects w r of
             None \<Rightarrow> Inl (Failure 500 ''session'')
           | Some s \<Rightarrow>
               if max_images_per_session \<le> length (images s) then Inl ImageLimitExceeded
               else
                 (case image data of
                    None \<Rightarrow> Inl (Failure 400 ''No image data provided'')
                  | Some img_base64 \<Rightarrow>
                      if img_base64 = [] then Inl (Failure 400 ''No image data provided'')
                      else
                        (case b64decode lib img_base64 of
                           Inl e \<Rightarrow> Inl (Failure 500 (str_error e))
                         | Inr img_bytes \<Rightarrow>
                             Inr \<lparr>pu_session = r, pu_bytes = img_bytes,
                                  img_num = length (images s),
                                  img_filename = ''img_'' @ format_04d (length (images s)) @ ''.jpg'',
                                  pu_folder = folder s\<rparr>))))"

definition benign :: "string \<Rightarrow> bool" where
  "benign c = (c = [] \<or> map lower_char c \<in> set [''plain'', ''normal'', ''unknown''])"

definition upload_commit ::
  "world \<Rightarrow> upload_request \<Rightarrow> pending_upload \<Rightarrow> real \<Rightarrow> response \<times> world" where
  "upload_commit w data pu t =
     (case write_file (files w) (pu_folder pu) (img_filename pu) (pu_bytes pu) of
        Inl e \<Rightarrow> (Failure 500 (str_error e), w)
      | Inr fs \<Rightarrow>
          (case session_objects w (pu_session pu) of
             None \<Rightarrow> (Failure 500 ''session'', w\<lparr>files := fs\<rparr>)
           | Some s \<Rightarrow>
               (let image_info =
                      \<lparr>filename = img_filename pu,
                       img_path = path_join (pu_folder pu) (img_filename pu),
                       camera_pose = up_camera_pose data,
                       transcript = (case up_transcript data of None \<Rightarrow> [] | Some t \<Rightarrow> t),
                       classification =
                         (case up_classification data of None \<Rightarrow> ''Unknown'' | Some c \<Rightarrow> c),
                       confidence = (case up_confidence data of None \<Rightarrow> 0 | Some c \<Rightarrow> c),
                       timestamp = t\<rparr>;
                    s1 = s\<lparr>images := images s @ [image_info]\<rparr>;
                    s2 = (if benign (classification image_info) then s1
                          else s1\<lparr>annotations := annotations s1 @
                                 [\<lparr>ann_position =
                                     (case (case up_camera_pose data of
                                              None \<Rightarrow> None | Some cp \<Rightarrow> position cp) of
                                        None \<Rightarrow> (0, 0, 0) | Some p \<Rightarrow> p),
                                   ann_classification = classification image_info,
                                   ann_transcript = transcript image_info,
                                   image_index = img_num pu\<rparr>]\<rparr>)
                in (ImageUploaded (length (images s2)) (length (annotations s2))
                      (''Image '' @ str_nat (img_num pu) @ '' uploaded successfully''),
                    w\<lparr>files := fs,
                      session_objects := (session_objects w)(pu_session pu \<mapsto> s2)\<rparr>))))"

text \<open>A request handled without interruption.\<close>

definition upload_image :: "libs \<Rightarrow> world \<Rightarrow> upload_request \<Rightarrow> real \<Rightarrow> response \<times> world" where
  "upload_image lib w data t =
     (case upload_prepare lib w data of
        Inl r \<Rightarrow> (r, w)
      | Inr pu \<Rightarrow> upload_commit w data pu t)"

section \<open>api/routes.py: reconstruction jobs\<close>

record reconstruct_request =
  rec_session_id :: "string option"
  quality :: "string option"

text \<open>The arguments of the thread that \<open>start_reconstruction\<close> starts: the job id and
  the reference to the session dict. Its third argument, \<open>config\<close>, is the shallow copy
  whose nested dicts are those of \<open>colmap_config\<close>.\<close>

record thread =
  thread_recon_id :: string
  thread_session :: nat

text \<open>\<open>d[key] = value\<close> on an ordered dict.\<close>

fun dict_set :: "string \<Rightarrow> string \<Rightarrow> (string \<times> string) list \<Rightarrow> (string \<times> string) list" where
  "dict_set k v [] = [(k, v)]"
| "dict_set k v ((k', v') # kvs) = (if k' = k then (k, v) # kvs else (k', v') # dict_set k v kvs)"

definition apply_quality :: "string \<Rightarrow> colmap_config \<Rightarrow> colmap_config" where
  "apply_quality q c =
     (if q = ''high'' then
        c\<lparr>feature_extractor := dict_set ''SiftExtraction.max_num_features'' ''16384'' (feature_extractor c),
          dense := dict_set ''max_image_size'' ''3200'' (dense c)\<rparr>
      else if q = ''low'' then
        c\<lparr>feature_extractor := dict_set ''SiftExtraction.max_num_features'' ''4096'' (feature_extractor c),
          dense := dict_set ''max_image_size'' ''1600'' (dense c)\<rparr>
      else c)"

definition quality_multiplier :: "string \<Rightarrow> real" where
  "quality_multiplier q = (if q = ''high'' then 2 else if q = ''medium'' then 1 else if q = ''low'' then 1 / 2 else 1)"

definition start_reconstruction ::
  "world \<Rightarrow> reconstruct_request \<Rightarrow> real \<Rightarrow> real \<Rightarrow> response \<times> world \<times> thread option" where
  "start_reconstruction w data t_id t_started =
     (case (case rec_session_id data of
              None \<Rightarrow> None
            | Some sid \<Rightarrow>
                if sid = [] then None else map_option (\<lambda>r. (sid, r)) (active_sessions w sid)) of
        None \<Rightarrow> (InvalidSession, w, None)
      | Some (sid, r) \<Rightarrow>
          (case session_objects w r of
             None \<Rightarrow> (Failure 500 ''session'', w, None)
           | Some s \<Rightarrow>
               if length (images s) < min_images_for_reconstruction then (InsufficientImages, w, None)
               else
                 (let recon_id = ''recon_'' @ str_int (py_int t_id);
                      q = (case quality data of None \<Rightarrow> ''medium'' | Some q \<Rightarrow> q);
                      j = \<lparr>session_id = sid, job_status = ''queued'',
                           progress = 0, message = ''Initializing reconstruction...'',
                           started_at = t_started, current_step = None, job_errors = [],
                           job_output_files = None, completed_at = None\<rparr>;
                      estimated_time = real (length (images s)) * (1 / 2) * quality_multiplier q
                  in (ReconstructionStarted recon_id (py_int (estimated_time / 60)),
                      w\<lparr>colmap_config := apply_quality q (colmap_config w),
                        reconstruction_status := (reconstruction_status w)(recon_id \<mapsto> j)\<rparr>,
                      Some \<lparr>thread_recon_id = recon_id, thread_session = r\<rparr>))))"

text \<open>Assignments to the keys of the job's status dict.\<close>

definition set_job :: "string \<Rightarrow> (job \<Rightarrow> job) \<Rightarrow> world \<Rightarrow> world" where
  "set_job recon_id f w =
     w\<lparr>reconstruction_status :=
         (reconstruction_status w)(recon_id := map_option f (reconstruction_status w recon_id))\<rparr>"

text \<open>The \<open>except\<close> clause of \<open>run_reconstruction\<close>.\<close>

definition job_failed :: "string \<Rightarrow> error \<Rightarrow> world \<Rightarrow> world" where
  "job_failed recon_id e w =
     set_job recon_id
       (\<lambda>j. j\<lparr>job_status := ''failed'',
               message := ''Reconstruction failed: '' @ str_error e,
               job_errors := job_errors j @ [str_error e]\<rparr>) w"

text \<open>
  The \<open>try\<close> block of \<open>run_reconstruction\<close>, in the four steps its comments number.
  A step returns \<open>Inl\<close> with the exception and the world at the moment it was raised.
\<close>

definition step1_colmap ::
  "libs \<Rightarrow> engine \<Rightarrow> world \<Rightarrow> string \<Rightarrow> session \<Rightarrow> (error \<times> world) + (world \<times> colmap_wrapper)" where
  "step1_colmap lib colmap w recon_id s =
     (case mkdir (files w) (path_join OUTPUT_DIR recon_id) of
        Inl e \<Rightarrow> Inl (e, w)
      | Inr fs0 \<Rightarrow>
          (let w1 = set_job recon_id
                      (\<lambda>j. j\<lparr>job_status := ''running'', current_step := Some ''colmap'',
                              message := ''Running COLMAP reconstruction...'', progress := 10\<rparr>)
                      (w\<lparr>files := fs0\<rparr>)
           in case COLMAPWrapper (files w1) (folder s) ''colmap'' of
                Inl e \<Rightarrow> Inl (e, w1)
              | Inr (cw, fs1) \<Rightarrow>
                  (case full_reconstruction cw colmap (Some (colmap_config w1)) fs1 of
                     (colmap_result, fs2) \<Rightarrow>
                       if \<not> success colmap_result then
                         Inl (RaisedException (''COLMAP failed: '' @ str_list (errors colmap_result)),
                              w1\<lparr>files := fs2\<rparr>)
                       else
                         Inr (set_job recon_id
                                (\<lambda>j. j\<lparr>progress := 60, message := ''COLMAP reconstruction completed''\<rparr>)
                                (w1\<lparr>files := fs2\<rparr>), cw))))"

text \<open>The fallback branch of the source assigns \<open>sparse_model\<close> and logs a warning; the
  processor is built on \<open>dense_model\<close> in either case.\<close>

definition step2_processing ::
  "libs \<Rightarrow> world \<Rightarrow> string \<Rightarrow> session \<Rightarrow> (error \<times> world) + (world \<times> processor \<times> process_results)" where
  "step2_processing lib w recon_id s =
     (let w1 = set_job recon_id
                 (\<lambda>j. j\<lparr>current_step := Some ''processing'', message := ''Processing 3D model...'',
                         progress := 70\<rparr>) w;
          dense_model = path_join (path_join (folder s) ''dense'') ''fused.ply''
      in case process_full_pipeline lib (files w1) (ModelProcessor dense_model) (Some MODEL_CONFIG) of
           (process_result, processor) \<Rightarrow>
             if \<not> success process_result then
               Inl (RaisedException (''Processing failed: '' @ str_list (errors process_result)), w1)
             else Inr (set_job recon_id (\<lambda>j. j\<lparr>progress := 85\<rparr>) w1, processor, process_result))"

definition step3_markers :: "world \<Rightarrow> string \<Rightarrow> session \<Rightarrow> processor \<Rightarrow> world \<times> processor" where
  "step3_markers w recon_id s processor =
     (let (w1, p1) =
            (if annotations s \<noteq> [] then
               (set_job recon_id (\<lambda>j. j\<lparr>message := ''Adding crack markers...''\<rparr>) w,
                snd (add_crack_markers processor (annotations s)))
             else (w, processor))
      in (set_job recon_id (\<lambda>j. j\<lparr>progress := 90\<rparr>) w1, p1))"

definition step4_save ::
  "libs \<Rightarrow> world \<Rightarrow> string \<Rightarrow> session \<Rightarrow> colmap_wrapper \<Rightarrow> processor \<Rightarrow> process_results \<Rightarrow>
   real \<Rightarrow> real \<Rightarrow> (error \<times> world) + world" where
  "step4_save lib w recon_id s cw processor process_result t_meta t_done =
     (let output_folder = path_join OUTPUT_DIR recon_id;
          w1 = set_job recon_id (\<lambda>j. j\<lparr>message := ''Saving final model...''\<rparr>) w;
          fs1 = snd (save_mesh lib processor (files w1) output_folder ''model.ply'' ''ply'');
          fs2 = snd (save_mesh lib processor fs1 output_folder ''model.obj'' ''obj'');
          fs3 = snd (save_mesh lib processor fs2 output_folder ''model.glb'' ''glb'');
          w2 = set_job recon_id (\<lambda>j. j\<lparr>progress := 95\<rparr>) (w1\<lparr>files := fs3\<rparr>)
      in case session_getitem s ''session_id'' of
           Inl e \<Rightarrow> Inl (e, w2)
         | Inr sid \<Rightarrow>
             (case session_getitem s ''project_name'' of
                Inl e \<Rightarrow> Inl (e, w2)
              | Inr pname \<Rightarrow>
                  (let meta = \<lparr>meta_reconstruction_id = recon_id,
                               meta_session_id = (case sid of SStr x \<Rightarrow> x | _ \<Rightarrow> []),
                               meta_project_name = (case pname of SStr x \<Rightarrow> x | _ \<Rightarrow> []),
                               meta_num_images = length (images s),
                               meta_num_annotations = length (annotations s),
                               meta_model_info = model_info process_result,
                               meta_colmap_stats = get_reconstruction_stats lib cw (files w2),
                               meta_created_at = t_meta\<rparr>
                   in case write_file (files w2) output_folder ''metadata.json'' (json_dump lib meta) of
                        Inl e \<Rightarrow> Inl (e, w2)
                      | Inr fs4 \<Rightarrow>
                          Inr (set_job recon_id
                                 (\<lambda>j. j\<lparr>job_status := ''completed'', progress := 100,
                                         message := ''3D reconstruction completed successfully!'',
                                         job_output_files :=
                                           Some [(''ply'', path_join output_folder ''model.ply''),
                                                 (''obj'', path_join output_folder ''model.obj''),
                                                 (''glb'', path_join output_folder ''model.glb''),
                                                 (''metadata'', path_join output_folder ''metadata.json'')],
                                         completed_at := Some t_done\<rparr>)
                                 (w2\<lparr>files := fs4\<rparr>)))))"

text \<open>
  \<open>run_reconstruction\<close>, run without interruption: the session dict that the thread's
  reference points to is then the same in every step. The second component of the
  result is the thread's \<open>processor\<close> object when the step that builds it was passed. A
  job id without an entry in \<open>reconstruction_status\<close> raises outside the \<open>try\<close> block
  and changes nothing.
\<close>

definition run_reconstruction ::
  "libs \<Rightarrow> engine \<Rightarrow> world \<Rightarrow> thread \<Rightarrow> real \<Rightarrow> real \<Rightarrow> world \<times> processor option" where
  "run_reconstruction lib colmap w th t_meta t_done =
     (let recon_id = thread_recon_id th; r = thread_session th
      in case reconstruction_status w recon_id of
           None \<Rightarrow> (w, None)
         | Some j0 \<Rightarrow>
      (case session_objects w r of
         None \<Rightarrow> (w, None)
       | Some s \<Rightarrow>
      (case step1_colmap lib colmap w recon_id s of
         Inl (e, w') \<Rightarrow> (job_failed recon_id e w', None)
       | Inr (w1, cw) \<Rightarrow>
      (case step2_processing lib w1 recon_id s of
         Inl (e, w') \<Rightarrow> (job_failed recon_id e w', None)
       | Inr (w2, processor, process_result) \<Rightarrow>
      (case step3_markers w2 recon_id s processor of
         (w3, p3) \<Rightarrow>
      (case step4_save lib w3 recon_id s cw p3 process_result t_meta t_done of
         Inl (e, w') \<Rightarrow> (job_failed recon_id e w', Some p3)
       | Inr w4 \<Rightarrow> (w4, Some p3)))))))"

section \<open>Concrete inputs\<close>

definition demo_cloud :: cloud where
  "demo_cloud = \<lparr>points = [(1/2, 1/2, 1/2), (1/10, 2/10, 3/10), (-3/2, 2, 3), (6/10, 6/10, 6/10)],
                 colors = Some [(1, 1, 1), (2, 2, 2), (3, 3, 3), (4, 4, 4)]\<rparr>"


text \<open>An engine for examples: the subcommands named in \<open>failing\<close> exit with an error and
  change nothing; \<open>mapper\<close> writes the model directory \<open>sparse/0\<close> of the workspace
  \<open>ws\<close>, \<open>stereo_fusion\<close> writes \<open>dense/fused.ply\<close> and \<open>model_converter\<close> writes
  \<open>model.ply\<close>; the other subcommands succeed without touching the files.\<close>

definition demo_colmap :: "path \<Rightarrow> string list \<Rightarrow> engine" where
  "demo_colmap ws failing cmd fs =
     (let sub = take 1 (drop 1 cmd)
      in if sub \<in> set (map (\<lambda>x. [x]) failing) then (False, fs)
         else if sub = [''mapper''] then (True, fs(path_join (path_join ws ''sparse'') ''0'' \<mapsto> Dir))
         else if sub = [''stereo_fusion''] then
           (True, fs(path_join (path_join ws ''dense'') ''fused.ply'' \<mapsto> File ''ply''))
         else if sub = [''model_converter''] then (True, fs(path_join ws ''model.ply'' \<mapsto> File ''ply''))
         else (True, fs))"

definition demo_wrapper :: colmap_wrapper where
  "demo_wrapper =
     \<lparr>workspace = ''ws'', colmap_exe = ''colmap'', images_path = ''ws/images'',
      database_path = ''ws/database.db'', sparse_path = ''ws/sparse'', dense_path = ''ws/dense''\<rparr>"

definition demo_fs :: filesystem where
  "demo_fs = [''ws'' \<mapsto> Dir, ''ws/images'' \<mapsto> Dir, ''ws/sparse'' \<mapsto> Dir, ''ws/dense'' \<mapsto> Dir]"

text \<open>A world with one session, as \<open>start_session\<close> at second 1700000000 followed by
  \<open>n\<close> uploads of unclassified images leaves it.\<close>

definition demo_image :: "nat \<Rightarrow> image_info" where
  "demo_image i =
     \<lparr>filename = ''img_'' @ format_04d i @ ''.jpg'',
      img_path = path_join ''sessions/session_1700000000'' (''img_'' @ format_04d i @ ''.jpg''),
      camera_pose = None, transcript = [], classification = ''Unknown'', confidence = 0,
      timestamp = 1700000001\<rparr>"

definition demo_session :: "nat \<Rightarrow> session" where
  "demo_session n =
     \<lparr>project_name = ''site'', room_type = ''unknown'', folder = ''sessions/session_1700000000'',
      images = map demo_image [0..<n], annotations = [], created_at = 1700000000,
      status = ''active''\<rparr>"

definition demo_world :: "nat \<Rightarrow> world" where
  "demo_world n =
     \<lparr>active_sessions = [''session_1700000000'' \<mapsto> 0],
      session_objects = [0 \<mapsto> demo_session n],
      next_object = 1,
      reconstruction_status = Map.empty,
      files = (\<lambda>p. if p = ''sessions/session_1700000000'' then Some Dir
                    else if p \<in> set (map (\<lambda>i. img_path (demo_image i)) [0..<n]) then Some (File ''jpeg'')
                    else None),
      colmap_config = COLMAP_CONFIG\<rparr>"

definition demo_reconstruct :: reconstruct_request where
  "demo_reconstruct = \<lparr>rec_session_id = Some ''session_1700000000'', quality = None\<rparr>"

definition demo_upload :: "string \<Rightarrow> upload_request" where
  "demo_upload c =
     \<lparr>up_session_id = Some ''session_1700000000'', image = Some ''aGVsbG8='',
      up_camera_pose = Some \<lparr>position = Some (1, 2, 3), rotation = None\<rparr>,
      up_transcript = None, up_classification = Some c, up_confidence = None\<rparr>"

text \<open>The module state after import: no session, no job, the two directories made by
  config.py.\<close>

definition initial_world :: world where
  "initial_world =
     \<lparr>active_sessions = Map.empty, session_objects = Map.empty, next_object = 0,
      reconstruction_status = Map.empty,
      files = [''sessions'' \<mapsto> Dir, ''output'' \<mapsto> Dir],
      colmap_config = COLMAP_CONFIG\<rparr>"

section \<open>Voxel downsampling\<close>

lemma first_index_lt: "k \<in> set xs \<Longrightarrow> first_index xs k < length xs"
  by (induction xs) auto

lemma nth_first_index: "k \<in> set xs \<Longrightarrow> xs ! first_index xs k = k"
  by (induction xs) auto

lemma first_index_nth: "distinct xs \<Longrightarrow> i < length xs \<Longrightarrow> first_index xs (xs ! i) = i"
proof (induction xs arbitrary: i)
  case Nil
  then show ?case by simp
next
  case (Cons x xs)
  show ?case
  proof (cases i)
    case 0
    then show ?thesis by simp
  next
    case (Suc j)
    with Cons.prems have "xs ! j \<in> set xs" "x \<notin> set xs" by auto
    then have "x \<noteq> xs ! j" by auto
    with Suc Cons show ?thesis by simp
  qed
qed

lemma map_first_index_distinct: "distinct xs \<Longrightarrow> map (first_index xs) xs = [0..<length xs]"
  by (rule nth_equalityI) (simp_all add: first_index_nth)

lemma np_take_upt: "np_take a [0..<length a] = Inr a"
  by (simp add: np_take_def list_all_iff map_nth)

lemma np_unique_fst: "fst (np_unique a) = sort (remdups a)"
  by (simp add: np_unique_def Let_def)

lemma np_unique_snd_in_range: "i \<in> set (snd (np_unique a)) \<Longrightarrow> i < length a"
  by (auto simp: np_unique_def Let_def first_index_lt)

lemma np_unique_rows: "map (\<lambda>i. a ! i) (snd (np_unique a)) = sort (remdups a)"
proof -
  have "map (\<lambda>k. a ! first_index a k) (sort (remdups a)) = map (\<lambda>k. k) (sort (remdups a))"
    by (rule map_cong) (simp_all add: nth_first_index)
  then show ?thesis by (simp add: np_unique_def Let_def comp_def)
qed

lemma np_unique_twice: "snd (np_unique (sort (remdups a))) = [0..<length (remdups a)]"
proof -
  let ?u = "sort (remdups a)"
  have d: "distinct ?u" by simp
  have "sort (remdups ?u) = ?u"
    by (simp add: distinct_remdups_id sort_key_id_if_sorted)
  then show ?thesis using map_first_index_distinct[OF d]
    by (simp add: np_unique_def Let_def)
qed

lemma np_take_in_range:
  "(\<And>i. i \<in> set idx \<Longrightarrow> i < length a) \<Longrightarrow> np_take a idx = Inr (map (\<lambda>i. a ! i) idx)"
  by (simp add: np_take_def list_all_iff)

lemma map_nth_map: "(\<And>i. i \<in> set idx \<Longrightarrow> i < length a) \<Longrightarrow>
  map f (map (\<lambda>i. a ! i) idx) = map (\<lambda>i. map f a ! i) idx"
  by simp

lemma downsample_cloud_wf:
  assumes "wf_cloud pc"
  shows "snd (downsample_cloud pc v) =
     \<lparr>points = map (\<lambda>i. points pc ! i) (kept pc v),
      colors = map_option (\<lambda>cs. map (\<lambda>i. cs ! i) (kept pc v)) (colors pc)\<rparr>"
proof -
  have r: "\<And>i. i \<in> set (kept pc v) \<Longrightarrow> i < length (points pc)"
    using np_unique_snd_in_range[of _ "map (voxel_index v) (points pc)"] by (simp add: kept_def)
  have p: "np_take (points pc) (kept pc v) = Inr (map (\<lambda>i. points pc ! i) (kept pc v))"
    by (rule np_take_in_range) (rule r)
  show ?thesis
  proof (cases "colors pc")
    case None
    then show ?thesis using p
      by (simp add: downsample_cloud_def Let_def kept_def[symmetric])
  next
    case (Some cs)
    with assms have "length cs = length (points pc)" by (simp add: wf_cloud_def)
    with r have "np_take cs (kept pc v) = Inr (map (\<lambda>i. cs ! i) (kept pc v))"
      by (intro np_take_in_range) simp
    with Some p show ?thesis
      by (simp add: downsample_cloud_def Let_def kept_def[symmetric])
  qed
qed

lemma downsample_cloud_voxels:
  assumes "wf_cloud pc"
  shows "map (voxel_index v) (points (snd (downsample_cloud pc v)))
         = sort (remdups (map (voxel_index v) (points pc)))"
proof -
  have r: "\<And>i. i \<in> set (kept pc v) \<Longrightarrow> i < length (points pc)"
    using np_unique_snd_in_range[of _ "map (voxel_index v) (points pc)"] by (simp add: kept_def)
  have "map (voxel_index v) (map (\<lambda>i. points pc ! i) (kept pc v))
        = map (\<lambda>i. map (voxel_index v) (points pc) ! i) (kept pc v)"
    using r by simp
  also have "\<dots> = sort (remdups (map (voxel_index v) (points pc)))"
    unfolding kept_def by (rule np_unique_rows)
  finally show ?thesis by (simp add: downsample_cloud_wf[OF assms])
qed


lemma kept_length: "length (kept pc v) = length (remdups (map (voxel_index v) (points pc)))"
  by (simp add: kept_def np_unique_def Let_def)

lemma downsample_cloud_wf_result:
  assumes "wf_cloud pc"
  shows "wf_cloud (snd (downsample_cloud pc v))"
  by (cases "colors pc") (simp_all add: downsample_cloud_wf[OF assms] wf_cloud_def)

lemma downsample_cloud_idem:
  assumes "wf_cloud pc"
  shows "snd (downsample_cloud (snd (downsample_cloud pc v)) v) = snd (downsample_cloud pc v)"
proof -
  let ?pc' = "snd (downsample_cloud pc v)"
  have w: "wf_cloud ?pc'" by (rule downsample_cloud_wf_result[OF assms])
  have len: "length (points ?pc') = length (remdups (map (voxel_index v) (points pc)))"
    by (simp add: downsample_cloud_wf[OF assms] kept_length)
  have "kept ?pc' v = snd (np_unique (sort (remdups (map (voxel_index v) (points pc)))))"
    by (simp add: kept_def downsample_cloud_voxels[OF assms])
  then have k: "kept ?pc' v = [0..<length (points ?pc')]"
    by (simp add: np_unique_twice len)
  have cs: "\<And>cs. colors ?pc' = Some cs \<Longrightarrow> length cs = length (points ?pc')"
    using w by (simp add: wf_cloud_def)
  have "snd (downsample_cloud ?pc' v) =
        \<lparr>points = map (\<lambda>i. points ?pc' ! i) (kept ?pc' v),
         colors = map_option (\<lambda>cs. map (\<lambda>i. cs ! i) (kept ?pc' v)) (colors ?pc')\<rparr>"
    by (rule downsample_cloud_wf[OF w])
  also have "\<dots> = ?pc'"
  proof (cases "colors ?pc'")
    case None
    then show ?thesis by (simp add: k map_nth)
  next
    case (Some cs)
    from cs[OF Some] have "map (\<lambda>i. cs ! i) [0..<length (points ?pc')] = cs"
      by (metis map_nth)
    with Some show ?thesis by (simp add: k map_nth)
  qed
  finally show ?thesis .
qed

lemma downsample_cloud_subset:
  assumes "wf_cloud pc"
  shows "set (points (snd (downsample_cloud pc v))) \<subseteq> set (points pc)"
proof -
  have r: "\<And>i. i \<in> set (kept pc v) \<Longrightarrow> i < length (points pc)"
    using np_unique_snd_in_range[of _ "map (voxel_index v) (points pc)"] by (simp add: kept_def)
  show ?thesis by (auto simp: downsample_cloud_wf[OF assms] dest: r)
qed

text \<open>
  Claim C5. For a loaded point cloud \<open>P\<close> and a voxel size \<open>v > 0\<close>,
  \<open>downsample_point_cloud\<close> leaves at most \<open>len(P)\<close> points, all of them points of \<open>P\<close>,
  exactly one for each voxel index that occurs in \<open>P\<close>, and running it again with the
  same \<open>v\<close> changes nothing.
\<close>

theorem downsample_point_cloud_idempotent:
  assumes "0 < v" and "point_cloud self = Some P" and "wf_cloud P"
  shows "\<exists>P'. point_cloud (snd (downsample_point_cloud self v)) = Some P'
           \<and> length (points P') \<le> length (points P)
           \<and> set (points P') \<subseteq> set (points P)
           \<and> distinct (map (voxel_index v) (points P'))
           \<and> set (map (voxel_index v) (points P')) = set (map (voxel_index v) (points P))
           \<and> snd (downsample_point_cloud (snd (downsample_point_cloud self v)) v)
               = snd (downsample_point_cloud self v)"
proof -
  let ?P' = "snd (downsample_cloud P v)"
  have a: "snd (downsample_point_cloud self v) = self\<lparr>point_cloud := Some ?P'\<rparr>"
    using assms(2) by (simp add: downsample_point_cloud_def case_prod_beta)
  have l: "length (points ?P') \<le> length (points P)"
  proof -
    have "length (points ?P') = length (remdups (map (voxel_index v) (points P)))"
      by (simp add: downsample_cloud_wf[OF assms(3)] kept_length)
    also have "\<dots> \<le> length (map (voxel_index v) (points P))" by (rule length_remdups_leq)
    finally show ?thesis by simp
  qed
  have d: "distinct (map (voxel_index v) (points ?P'))"
    by (simp add: downsample_cloud_voxels[OF assms(3)])
  have s: "set (map (voxel_index v) (points ?P')) = set (map (voxel_index v) (points P))"
    by (simp add: downsample_cloud_voxels[OF assms(3)])
  have i: "snd (downsample_point_cloud (self\<lparr>point_cloud := Some ?P'\<rparr>) v)
           = self\<lparr>point_cloud := Some ?P'\<rparr>"
    using downsample_cloud_idem[OF assms(3), of v]
    by (simp add: downsample_point_cloud_def case_prod_beta)
  show ?thesis
    using a l d s i downsample_cloud_subset[OF assms(3), of v] by simp
qed

lemma demo_downsample:
  "downsample_cloud demo_cloud 1 =
     (True, \<lparr>points = [(-3/2, 2, 3), (1/2, 1/2, 1/2)], colors = Some [(3, 3, 3), (1, 1, 1)]\<rparr>)"
  by code_simp

theorem downsample_point_cloud_idempotent_witness:
  "(0::real) < 1 \<and> point_cloud ((ModelProcessor ''fused.ply'')\<lparr>point_cloud := Some demo_cloud\<rparr>) = Some demo_cloud
   \<and> wf_cloud demo_cloud
   \<and> (\<exists>P'. point_cloud (snd (downsample_point_cloud ((ModelProcessor ''fused.ply'')\<lparr>point_cloud := Some demo_cloud\<rparr>) 1)) = Some P'
           \<and> length (points P') \<le> length (points demo_cloud)
           \<and> set (points P') \<subseteq> set (points demo_cloud)
           \<and> distinct (map (voxel_index 1) (points P'))
           \<and> set (map (voxel_index 1) (points P')) = set (map (voxel_index 1) (points demo_cloud))
           \<and> snd (downsample_point_cloud (snd (downsample_point_cloud ((ModelProcessor ''fused.ply'')\<lparr>point_cloud := Some demo_cloud\<rparr>) 1)) 1)
               = snd (downsample_point_cloud ((ModelProcessor ''fused.ply'')\<lparr>point_cloud := Some demo_cloud\<rparr>) 1))"
proof -
  have h1: "(0::real) < 1" by simp
  have h2: "point_cloud ((ModelProcessor ''fused.ply'')\<lparr>point_cloud := Some demo_cloud\<rparr>) = Some demo_cloud"
    by simp
  have h3: "wf_cloud demo_cloud" by (simp add: wf_cloud_def demo_cloud_def)
  show ?thesis using downsample_point_cloud_idempotent[OF h1 h2 h3] h1 h2 h3 by blast
qed

section \<open>Outlier removal\<close>

lemma np_mean_nonneg: "(\<And>x. x \<in> set xs \<Longrightarrow> 0 \<le> x) \<Longrightarrow> 0 \<le> np_mean xs"
  by (simp add: np_mean_def sum_list_nonneg)

lemma np_std_nonneg: "0 \<le> np_std xs"
  unfolding np_std_def by (rule real_sqrt_ge_zero, rule np_mean_nonneg) auto

lemma np_mask_same_length: "length keep = length a \<Longrightarrow> np_mask a keep = Inr (map fst (filter snd (zip a keep)))"
  by (simp add: np_mask_def)

lemma masked_subset:
  assumes "length k1 = length k2" and "\<And>i. i < length k1 \<Longrightarrow> k1 ! i \<Longrightarrow> k2 ! i"
  shows "set (map fst (filter snd (zip a k1))) \<subseteq> set (map fst (filter snd (zip a k2)))"
proof
  fix x assume "x \<in> set (map fst (filter snd (zip a k1)))"
  then have "(x, True) \<in> set (zip a k1)" by auto
  then obtain i where i: "i < length a" "i < length k1" "a ! i = x" "k1 ! i"
    by (auto simp: in_set_zip)
  with assms have "k2 ! i" "i < length k2" by auto
  with i have "(x, True) \<in> set (zip a k2)" by (auto simp: in_set_zip intro!: exI[of _ i])
  then show "x \<in> set (map fst (filter snd (zip a k2)))" by force
qed

lemma statistical_mask_length:
  "statistical_mask pts nb r = Inr keep \<Longrightarrow> length keep = length pts"
  by (auto simp: statistical_mask_def Let_def avg_distances_def split: if_splits)

lemma statistical_mask_error:
  "statistical_mask pts nb r1 = Inl e \<longleftrightarrow> statistical_mask pts nb r2 = Inl e"
  by (auto simp: statistical_mask_def Let_def split: if_splits)

lemma statistical_mask_mono:
  assumes "r1 \<le> r2" and "statistical_mask pts nb r1 = Inr k1" and "statistical_mask pts nb r2 = Inr k2"
    and "i < length k1" and "k1 ! i"
  shows "k2 ! i"
proof (cases "nb = 0 \<or> length pts \<le> nb")
  case True
  with assms show ?thesis by (auto simp: statistical_mask_def split: if_splits)
next
  case False
  let ?avg = "avg_distances pts nb"
  have "r1 * np_std ?avg \<le> r2 * np_std ?avg"
    by (rule mult_right_mono[OF assms(1) np_std_nonneg])
  with False assms show ?thesis
    by (auto simp: statistical_mask_def Let_def split: if_splits)
qed

lemma remove_outliers_cloud_points:
  "outlier_mask (points pc) method kw = Inr keep \<Longrightarrow> length keep = length (points pc) \<Longrightarrow>
   points (snd (remove_outliers_cloud pc method kw)) = map fst (filter snd (zip (points pc) keep))"
  by (auto simp: remove_outliers_cloud_def Let_def np_mask_def split: sum.splits option.splits)

lemma remove_outliers_cloud_error:
  "outlier_mask (points pc) method kw = Inl e \<Longrightarrow> remove_outliers_cloud pc method kw = (False, pc)"
  by (simp add: remove_outliers_cloud_def Let_def)

lemma remove_outliers_cloud_monotone:
  assumes "r1 \<le> r2"
  shows "set (points (snd (remove_outliers_cloud pc ''statistical'' (kw\<lparr>std_ratio := Some r1\<rparr>))))
       \<subseteq> set (points (snd (remove_outliers_cloud pc ''statistical'' (kw\<lparr>std_ratio := Some r2\<rparr>))))"
proof -
  let ?nb = "case nb_neighbors kw of None \<Rightarrow> 20 | Some n \<Rightarrow> n"
  have m1: "outlier_mask (points pc) ''statistical'' (kw\<lparr>std_ratio := Some r1\<rparr>) = statistical_mask (points pc) ?nb r1"
    and m2: "outlier_mask (points pc) ''statistical'' (kw\<lparr>std_ratio := Some r2\<rparr>) = statistical_mask (points pc) ?nb r2"
    by (simp_all add: outlier_mask_def)
  show ?thesis
  proof (cases "statistical_mask (points pc) ?nb r1")
    case (Inl e)
    then have "statistical_mask (points pc) ?nb r2 = Inl e" by (simp add: statistical_mask_error[of _ _ r1 e r2])
    with Inl m1 m2 show ?thesis by (simp add: remove_outliers_cloud_error)
  next
    case (Inr k1)
    then obtain k2 where k2: "statistical_mask (points pc) ?nb r2 = Inr k2"
      by (cases "statistical_mask (points pc) ?nb r2") (auto simp: statistical_mask_error[of _ _ r2 _ r1])
    have l1: "length k1 = length (points pc)" and l2: "length k2 = length (points pc)"
      using Inr k2 by (auto dest: statistical_mask_length)
    have "set (map fst (filter snd (zip (points pc) k1))) \<subseteq> set (map fst (filter snd (zip (points pc) k2)))"
      by (rule masked_subset) (use l1 l2 statistical_mask_mono[OF assms Inr k2] in auto)
    then show ?thesis
      using remove_outliers_cloud_points[of pc "''statistical''" "kw\<lparr>std_ratio := Some r1\<rparr>" k1]
            remove_outliers_cloud_points[of pc "''statistical''" "kw\<lparr>std_ratio := Some r2\<rparr>" k2]
            m1 m2 Inr k2 l1 l2 by simp
  qed
qed

text \<open>
  Claim C6. For a loaded point cloud, any neighbour count and any other keyword
  arguments, the points that statistical outlier removal retains with \<open>std_ratio = r1\<close>
  are among those it retains with \<open>std_ratio = r2\<close> whenever \<open>r1 \<le> r2\<close>: the standard
  deviation is not negative, so the threshold grows with the ratio.
\<close>

theorem remove_outliers_monotone:
  assumes "r1 \<le> r2" and "point_cloud self = Some P"
  shows "\<exists>P1 P2.
           point_cloud (snd (remove_outliers self ''statistical'' (kw\<lparr>std_ratio := Some r1\<rparr>))) = Some P1
         \<and> point_cloud (snd (remove_outliers self ''statistical'' (kw\<lparr>std_ratio := Some r2\<rparr>))) = Some P2
         \<and> set (points P1) \<subseteq> set (points P2)"
  using assms(2) remove_outliers_cloud_monotone[OF assms(1), of P kw]
  by (simp add: remove_outliers_def case_prod_beta)

theorem remove_outliers_monotone_witness:
  "(1::real) \<le> 2 \<and> point_cloud ((ModelProcessor ''fused.ply'')\<lparr>point_cloud := Some demo_cloud\<rparr>) = Some demo_cloud
   \<and> (\<exists>P1 P2.
           point_cloud (snd (remove_outliers ((ModelProcessor ''fused.ply'')\<lparr>point_cloud := Some demo_cloud\<rparr>)
              ''statistical'' (no_kwargs\<lparr>nb_neighbors := Some 2, std_ratio := Some 1\<rparr>))) = Some P1
         \<and> point_cloud (snd (remove_outliers ((ModelProcessor ''fused.ply'')\<lparr>point_cloud := Some demo_cloud\<rparr>)
              ''statistical'' (no_kwargs\<lparr>nb_neighbors := Some 2, std_ratio := Some 2\<rparr>))) = Some P2
         \<and> set (points P1) \<subseteq> set (points P2))"
proof -
  have h1: "(1::real) \<le> 2" by simp
  have h2: "point_cloud ((ModelProcessor ''fused.ply'')\<lparr>point_cloud := Some demo_cloud\<rparr>) = Some demo_cloud"
    by simp
  show ?thesis
    using remove_outliers_monotone[OF h1 h2, of "no_kwargs\<lparr>nb_neighbors := Some 2\<rparr>"] h1 h2 by simp
qed

text \<open>
  Claim C7 says that both strategies complete without failure on an empty cloud. On a
  cloud with no points either strategy reaches the log line that divides by
  \<open>original_size\<close>, and \<open>remove_outliers\<close> returns False.
\<close>

theorem remove_outliers_empty_cloud_fails:
  "fst (remove_outliers ((ModelProcessor ''fused.ply'')\<lparr>point_cloud := Some \<lparr>points = [], colors = None\<rparr>\<rparr>)
          ''statistical'' no_kwargs) = False
   \<and> fst (remove_outliers ((ModelProcessor ''fused.ply'')\<lparr>point_cloud := Some \<lparr>points = [], colors = None\<rparr>\<rparr>)
          ''radius'' no_kwargs) = False"
  by (simp add: remove_outliers_def remove_outliers_cloud_def outlier_mask_def statistical_mask_def
      radius_mask_def no_kwargs_def np_mask_def ModelProcessor_def)

text \<open>On a cloud that is not empty and has fewer points than the neighbour count, both
  strategies succeed and leave an empty cloud.\<close>

lemma remove_outliers_small_cloud:
  assumes "point_cloud self = Some P" and "wf_cloud P" and "points P \<noteq> []"
  shows "length (points P) < n \<Longrightarrow>
         remove_outliers self ''statistical'' (kw\<lparr>nb_neighbors := Some n\<rparr>)
           = (True, self\<lparr>point_cloud := Some (P\<lparr>points := [], colors := map_option (\<lambda>cs. []) (colors P)\<rparr>)\<rparr>)"
    and "length (points P) < n \<Longrightarrow>
         remove_outliers self ''radius'' (kw\<lparr>nb_points := Some n\<rparr>)
           = (True, self\<lparr>point_cloud := Some (P\<lparr>points := [], colors := map_option (\<lambda>cs. []) (colors P)\<rparr>)\<rparr>)"
proof -
  have z: "\<And>(xs::'a list) n. map fst (filter snd (zip xs (replicate n False))) = []"
    by (auto simp: filter_empty_conv set_zip)
  have r: "\<And>p. length (filter (\<lambda>q. dist3 p q \<le> (case radius kw of None \<Rightarrow> 5 / 100 | Some r \<Rightarrow> r)) (points P)) \<le> length (points P)"
    by simp
  show "length (points P) < n \<Longrightarrow>
         remove_outliers self ''statistical'' (kw\<lparr>nb_neighbors := Some n\<rparr>)
           = (True, self\<lparr>point_cloud := Some (P\<lparr>points := [], colors := map_option (\<lambda>cs. []) (colors P)\<rparr>)\<rparr>)"
    using assms
    by (cases "colors P")
       (auto simp: remove_outliers_def remove_outliers_cloud_def outlier_mask_def statistical_mask_def
          np_mask_def wf_cloud_def z Let_def)
  show "length (points P) < n \<Longrightarrow>
         remove_outliers self ''radius'' (kw\<lparr>nb_points := Some n\<rparr>)
           = (True, self\<lparr>point_cloud := Some (P\<lparr>points := [], colors := map_option (\<lambda>cs. []) (colors P)\<rparr>)\<rparr>)"
  proof -
    assume lt: "length (points P) < n"
    have "radius_mask (points P) n (case radius kw of None \<Rightarrow> 5 / 100 | Some r \<Rightarrow> r)
          = map (\<lambda>p. False) (points P)"
      unfolding radius_mask_def
      by (rule map_cong[OF refl]) (use lt in \<open>simp add: not_le le_less_trans[OF length_filter_le]\<close>)
    then have m: "radius_mask (points P) n (case radius kw of None \<Rightarrow> 5 / 100 | Some r \<Rightarrow> r)
          = replicate (length (points P)) False"
      by (simp add: map_replicate_const)
    show ?thesis
      using assms
      by (cases "colors P")
         (auto simp: remove_outliers_def remove_outliers_cloud_def outlier_mask_def m
            np_mask_def wf_cloud_def z Let_def)
  qed
qed

section \<open>The adapter's pipeline\<close>

lemma export_model_some:
  "fst (export_model self colmap fmt fs) \<noteq> None \<longleftrightarrow>
     path_exists fs (path_join (dense_path self) ''fused.ply'')
   \<or> (path_exists fs (path_join (sparse_path self) ''0'')
      \<and> fst (run_command colmap
                [colmap_exe self, ''model_converter'',
                 ''--input_path'', path_join (sparse_path self) ''0'',
                 ''--output_path'', path_join (workspace self) (''model.'' @ map lower_char fmt),
                 ''--output_type'', fmt] fs))"
  by (auto simp: export_model_def Let_def split: prod.splits bool.splits)

text \<open>
  Claim C4, as amended. A failure of feature extraction, feature matching, sparse
  reconstruction or image undistortion makes \<open>full_reconstruction\<close> return at once,
  with \<open>success = False\<close>, that stage's error as the only error and no later stage run.
  A failure of the dense stage is recorded in \<open>errors\<close> and the pipeline goes on to
  \<open>export_model\<close>; \<open>success\<close> is then True exactly when \<open>dense/fused.ply\<close> exists or
  the sparse model \<open>sparse/0\<close> exists and its \<open>model_converter\<close> command succeeds.
\<close>

theorem full_reconstruction_stage_failures:
  assumes e1: "feature_extraction self colmap config fs = (ok1, fs1)"
      and e2: "feature_matching self colmap config fs1 = (ok2, fs2)"
      and e3: "sparse_reconstruction self colmap config fs2 = (ok3, fs3)"
      and e4: "image_undistortion self colmap fs3 = (ok4, fs4)"
      and e5: "dense_reconstruction self colmap config fs4 = (ok5, fs5)"
  shows "(\<not> ok1 \<longrightarrow> full_reconstruction self colmap config fs =
            (\<lparr>success = False, steps_completed = [],
              errors = [''Feature extraction failed''], output_files = []\<rparr>, fs1))
       \<and> (ok1 \<and> \<not> ok2 \<longrightarrow> full_reconstruction self colmap config fs =
            (\<lparr>success = False, steps_completed = [''feature_extraction''],
              errors = [''Feature matching failed''], output_files = []\<rparr>, fs2))
       \<and> (ok1 \<and> ok2 \<and> \<not> ok3 \<longrightarrow> full_reconstruction self colmap config fs =
            (\<lparr>success = False, steps_completed = [''feature_extraction'', ''feature_matching''],
              errors = [''Sparse reconstruction failed''], output_files = []\<rparr>, fs3))
       \<and> (ok1 \<and> ok2 \<and> ok3 \<and> \<not> ok4 \<longrightarrow> full_reconstruction self colmap config fs =
            (\<lparr>success = False,
              steps_completed = [''feature_extraction'', ''feature_matching'', ''sparse_reconstruction''],
              errors = [''Image undistortion failed''], output_files = []\<rparr>, fs4))
       \<and> (ok1 \<and> ok2 \<and> ok3 \<and> ok4 \<and> \<not> ok5 \<longrightarrow>
            errors (fst (full_reconstruction self colmap config fs)) = [''Dense reconstruction failed'']
          \<and> (success (fst (full_reconstruction self colmap config fs)) \<longleftrightarrow>
               path_exists fs5 (path_join (dense_path self) ''fused.ply'')
             \<or> (path_exists fs5 (path_join (sparse_path self) ''0'')
                \<and> fst (run_command colmap
                          [colmap_exe self, ''model_converter'',
                           ''--input_path'', path_join (sparse_path self) ''0'',
                           ''--output_path'', path_join (workspace self) ''model.ply'',
                           ''--output_type'', ''PLY''] fs5))))"
proof -
  have lc: "map lower_char ''PLY'' = ''ply''"
    by code_simp
  show ?thesis
    using export_model_some[of self colmap "''PLY''" fs5, unfolded lc]
    by (cases "export_model self colmap ''PLY'' fs5")
       (auto simp: full_reconstruction_def Let_def e1 e2 e3 e4 e5 split: option.splits)
qed

lemma demo_stage_simps:
  "feature_extraction demo_wrapper (demo_colmap ''ws'' f) c fs
     = (if ''feature_extractor'' \<in> set f then (False, fs) else (True, fs))"
  "feature_matching demo_wrapper (demo_colmap ''ws'' f) c fs
     = (if ''exhaustive_matcher'' \<in> set f then (False, fs) else (True, fs))"
  "sparse_reconstruction demo_wrapper (demo_colmap ''ws'' f) c fs
     = (if ''mapper'' \<in> set f then (False, fs) else (True, fs(''ws/sparse/0'' \<mapsto> Dir)))"
  by (auto simp: feature_extraction_def feature_matching_def sparse_reconstruction_def
      run_command_def demo_colmap_def demo_wrapper_def path_join_def Let_def)


lemma demo_stage_simps2:
  "image_undistortion demo_wrapper (demo_colmap ''ws'' f) fs
     = (if fs ''ws/sparse/0'' = None \<or> ''image_undistorter'' \<in> set f then (False, fs) else (True, fs))"
  "dense_reconstruction demo_wrapper (demo_colmap ''ws'' f) c fs
     = (if ''patch_match_stereo'' \<in> set f \<or> ''stereo_fusion'' \<in> set f then (False, fs)
        else (True, fs(''ws/dense/fused.ply'' \<mapsto> File ''ply'')))"
  "run_command (demo_colmap ''ws'' f) (exe # ''model_converter'' # args) fs
     = (if ''model_converter'' \<in> set f then (False, fs) else (True, fs(''ws/model.ply'' \<mapsto> File ''ply'')))"
  by (auto simp: image_undistortion_def dense_reconstruction_def path_exists_def
      run_command_def demo_colmap_def demo_wrapper_def path_join_def Let_def)

lemma demo_fs_simps:
  "demo_fs ''ws/sparse/0'' = None" "demo_fs ''ws/dense/fused.ply'' = None"
  by (simp_all add: demo_fs_def)

text \<open>
  Claim C4 as stated promises \<open>success = True\<close> whenever a sparse model exists. Here the
  four sparse stages succeed, the dense stage fails, the sparse model exists, and the
  conversion of the sparse model fails: \<open>success\<close> stays False.
\<close>

theorem full_reconstruction_dense_counterexample:
  "path_exists (snd (full_reconstruction demo_wrapper
                       (demo_colmap ''ws'' [''patch_match_stereo'', ''model_converter''])
                       (Some COLMAP_CONFIG) demo_fs)) ''ws/sparse/0''
   \<and> errors (fst (full_reconstruction demo_wrapper
                       (demo_colmap ''ws'' [''patch_match_stereo'', ''model_converter''])
                       (Some COLMAP_CONFIG) demo_fs)) = [''Dense reconstruction failed'']
   \<and> \<not> success (fst (full_reconstruction demo_wrapper
                       (demo_colmap ''ws'' [''patch_match_stereo'', ''model_converter''])
                       (Some COLMAP_CONFIG) demo_fs))"
  by (simp add: full_reconstruction_def demo_stage_simps demo_stage_simps2 export_model_def
      path_exists_def demo_fs_simps Let_def)
     (simp add: demo_wrapper_def path_join_def demo_fs_simps)

theorem full_reconstruction_stage_failures_witness:
  "full_reconstruction demo_wrapper (demo_colmap ''ws'' [''mapper'']) (Some COLMAP_CONFIG) demo_fs =
      (\<lparr>success = False, steps_completed = [''feature_extraction'', ''feature_matching''],
        errors = [''Sparse reconstruction failed''], output_files = []\<rparr>, demo_fs)
   \<and> errors (fst (full_reconstruction demo_wrapper (demo_colmap ''ws'' [''patch_match_stereo''])
                    (Some COLMAP_CONFIG) demo_fs)) = [''Dense reconstruction failed'']
   \<and> success (fst (full_reconstruction demo_wrapper (demo_colmap ''ws'' [''patch_match_stereo''])
                    (Some COLMAP_CONFIG) demo_fs))"
proof -
  let ?c = "Some COLMAP_CONFIG"
  let ?A = "demo_colmap ''ws'' [''mapper'']"
  let ?B = "demo_colmap ''ws'' [''patch_match_stereo'']"
  let ?fs3 = "demo_fs(''ws/sparse/0'' \<mapsto> Dir)"
  have a1: "feature_extraction demo_wrapper ?A ?c demo_fs = (True, demo_fs)"
    and a2: "feature_matching demo_wrapper ?A ?c demo_fs = (True, demo_fs)"
    and a3: "sparse_reconstruction demo_wrapper ?A ?c demo_fs = (False, demo_fs)"
    and a4: "image_undistortion demo_wrapper ?A demo_fs = (False, demo_fs)"
    and a5: "dense_reconstruction demo_wrapper ?A ?c demo_fs = (True, demo_fs(''ws/dense/fused.ply'' \<mapsto> File ''ply''))"
    by (simp_all add: demo_stage_simps demo_stage_simps2 demo_fs_simps)
  have b1: "feature_extraction demo_wrapper ?B ?c demo_fs = (True, demo_fs)"
    and b2: "feature_matching demo_wrapper ?B ?c demo_fs = (True, demo_fs)"
    and b3: "sparse_reconstruction demo_wrapper ?B ?c demo_fs = (True, ?fs3)"
    and b4: "image_undistortion demo_wrapper ?B ?fs3 = (True, ?fs3)"
    and b5: "dense_reconstruction demo_wrapper ?B ?c ?fs3 = (False, ?fs3)"
    by (simp_all add: demo_stage_simps demo_stage_simps2)
  have p: "path_exists ?fs3 (path_join (sparse_path demo_wrapper) ''0'')"
    by (simp add: path_exists_def path_join_def demo_wrapper_def)
  have q: "fst (run_command ?B [colmap_exe demo_wrapper, ''model_converter'',
                  ''--input_path'', path_join (sparse_path demo_wrapper) ''0'',
                  ''--output_path'', path_join (workspace demo_wrapper) ''model.ply'',
                  ''--output_type'', ''PLY''] ?fs3)"
    by (simp add: demo_stage_simps2)
  show ?thesis
    using full_reconstruction_stage_failures[OF a1 a2 a3 a4 a5]
          full_reconstruction_stage_failures[OF b1 b2 b3 b4 b5] p q
    by simp
qed

end
